theory Spec2Isabelle
  imports Complex_Main "HOL-Library.Product_Lexorder" "HOL-Library.Multiset"
begin

section \<open>Data model (models.py)\<close>

text \<open>
  Python \<open>float\<close> quantities, costs and scores are modelled as \<open>real\<close> (exact
  arithmetic), Python \<open>int\<close> as \<open>int\<close>, \<open>datetime\<close> values as integer timestamps.
  A \<open>dict\<close> is an association list in insertion order (the order \<open>values()\<close> iterates
  in); the keys of a dict are distinct. An \<open>Optional[str]\<close> is a \<open>string option\<close>.
  Field names shared by several dataclasses carry a prefix, since record fields are
  global constants.
\<close>

datatype operator_status = AVAILABLE | ASSIGNED | BREAK | UNAVAILABLE

datatype machine_status = IDLE | RUNNING | MAINTENANCE | BREAKDOWN

datatype work_order_status = PENDING | IN_PROGRESS | COMPLETED | BLOCKED

type_synonym timestamp = int

type_synonym 'a dict = "(string \<times> 'a) list"

record operator =
  operator_id :: string
  op_name :: string
  skills :: "string list"
  skill_levels :: "int dict"
  op_current_status :: operator_status
  op_current_work_order :: "string option"
  shift_start :: "timestamp option"
  shift_end :: "timestamp option"
  op_location :: string
  hourly_cost :: real

record machine =
  machine_id :: string
  m_name :: string
  capabilities :: "string list"
  m_current_status :: machine_status
  m_current_work_order :: "string option"
  m_location :: string
  cycle_time :: int
  maintenance_schedule :: "timestamp option"
  last_maintenance :: "timestamp option"
  operating_cost_per_hour :: real

record material_requirement =
  req_material_id :: string
  req_quantity :: real

record material =
  material_id :: string
  mat_name :: string
  quantity_available :: real
  quantity_reserved :: real
  mat_location :: string
  unit_of_measure :: string
  reorder_point :: real
  expected_delivery :: "timestamp option"
  cost_per_unit :: real

record work_order =
  work_order_id :: string
  priority :: int
  required_skills :: "string list"
  required_machine_capability :: string
  required_materials :: "material_requirement list"
  estimated_duration :: int
  deadline :: timestamp
  status :: work_order_status
  assigned_operator :: "string option"
  assigned_machine :: "string option"
  start_time :: "timestamp option"
  completion_time :: "timestamp option"
  wo_location :: string
  progress :: real

text \<open>The state of an \<open>AllocationEngine\<close>: its five dictionaries.\<close>

record engine =
  operators :: "operator dict"
  machines :: "machine dict"
  materials :: "material dict"
  work_orders :: "work_order dict"
  last_reallocation_time :: "timestamp dict"

text \<open>
  \<open>d.get(k)\<close> is \<open>map_of d k\<close>. An object reached through a dict is mutated in place:
  \<open>dict_modify k f d\<close> applies \<open>f\<close> to the entry stored under \<open>k\<close> and keeps its
  position. \<open>d[k] = v\<close> overwrites in place or appends a new key.
\<close>

fun dict_modify :: "string \<Rightarrow> ('a \<Rightarrow> 'a) \<Rightarrow> 'a dict \<Rightarrow> 'a dict" where
  "dict_modify k f [] = []"
| "dict_modify k f ((k', v) # d) =
     (if k' = k then (k', f v) # d else (k', v) # dict_modify k f d)"

fun dict_set :: "string \<Rightarrow> 'a \<Rightarrow> 'a dict \<Rightarrow> 'a dict" where
  "dict_set k v [] = [(k, v)]"
| "dict_set k v ((k', v') # d) =
     (if k' = k then (k', v) # d else (k', v') # dict_set k v d)"

text \<open>Python truthiness of an \<open>Optional[str]\<close>: \<open>None\<close> and the empty string are false.\<close>

definition truthy :: "string option \<Rightarrow> bool" where
  "truthy x = (case x of None \<Rightarrow> False | Some s \<Rightarrow> s \<noteq> [])"

section \<open>Allocation engine (allocation\_engine.py)\<close>

subsection \<open>Scoring\<close>

definition calculate_distance :: "string \<Rightarrow> string \<Rightarrow> real" where
  "calculate_distance location1 location2 = (if location1 = location2 then 0 else 10)"

definition required_skill_levels :: "work_order \<Rightarrow> operator \<Rightarrow> int list" where
  "required_skill_levels wo oper =
     map (\<lambda>skill. case map_of (skill_levels oper) skill of None \<Rightarrow> 0 | Some l \<Rightarrow> l)
       (required_skills wo)"

definition skill_match_quality :: "work_order \<Rightarrow> operator \<Rightarrow> real" where
  "skill_match_quality wo oper =
     (let levels = required_skill_levels wo oper
      in if levels \<noteq> [] then real_of_int (sum_list levels) / real (length levels) / 5 else 0)"

definition proximity_factor :: "work_order \<Rightarrow> operator \<Rightarrow> machine \<Rightarrow> real" where
  "proximity_factor wo oper m =
     (let max_distance = 100;
          operator_machine_distance = calculate_distance (op_location oper) (m_location m);
          machine_wo_distance = calculate_distance (m_location m) (wo_location wo);
          avg_distance = (operator_machine_distance + machine_wo_distance) / 2
      in 1 - min (avg_distance / max_distance) 1)"

definition machine_efficiency :: "machine \<Rightarrow> real" where
  "machine_efficiency m =
     (let max_cycle_time = 120;
          eff = (if cycle_time m \<noteq> 0 then 1 - real_of_int (cycle_time m) / max_cycle_time
                 else 0.5)
      in max 0 (min eff 1))"

definition cost_optimization :: "operator \<Rightarrow> machine \<Rightarrow> real" where
  "cost_optimization oper m =
     (let max_cost = 100;
          total_cost = hourly_cost oper + operating_cost_per_hour m
      in 1 - min (total_cost / max_cost) 1)"

definition calculate_allocation_score :: "work_order \<Rightarrow> operator \<Rightarrow> machine \<Rightarrow> real" where
  "calculate_allocation_score wo oper m =
     0.4 * skill_match_quality wo oper
     + 0.3 * proximity_factor wo oper m
     + 0.2 * machine_efficiency m
     + 0.1 * cost_optimization oper m"

subsection \<open>Hard constraints\<close>

text \<open>
  The reason string of the source is kept as a value that carries what the source
  interpolates into the message.
\<close>

datatype reason =
    MissingSkill string
  | LacksCapability
  | MaterialNotFound string
  | InsufficientMaterial string real real
  | OperatorNotAvailable operator_status
  | MachineNotIdle machine_status
  | AllSatisfied

fun check_skills :: "string list \<Rightarrow> string list \<Rightarrow> reason option" where
  "check_skills [] have = None"
| "check_skills (skill # rest) have =
     (if skill \<notin> set have then Some (MissingSkill skill) else check_skills rest have)"

fun check_materials :: "material dict \<Rightarrow> material_requirement list \<Rightarrow> reason option" where
  "check_materials mats [] = None"
| "check_materials mats (mat_req # rest) =
     (case map_of mats (req_material_id mat_req) of
        None \<Rightarrow> Some (MaterialNotFound (req_material_id mat_req))
      | Some mat \<Rightarrow>
          (let available = quantity_available mat - quantity_reserved mat
           in if available < req_quantity mat_req
              then Some (InsufficientMaterial (req_material_id mat_req)
                           (req_quantity mat_req) available)
              else check_materials mats rest))"

definition check_hard_constraints ::
  "engine \<Rightarrow> work_order \<Rightarrow> operator \<Rightarrow> machine \<Rightarrow> bool \<times> reason" where
  "check_hard_constraints e wo oper m =
     (case check_skills (required_skills wo) (skills oper) of
        Some r \<Rightarrow> (False, r)
      | None \<Rightarrow>
          if required_machine_capability wo \<notin> set (capabilities m)
          then (False, LacksCapability)
          else (case check_materials (materials e) (required_materials wo) of
                  Some r \<Rightarrow> (False, r)
                | None \<Rightarrow>
                    if op_current_status oper \<noteq> AVAILABLE
                    then (False, OperatorNotAvailable (op_current_status oper))
                    else if m_current_status m \<noteq> IDLE
                    then (False, MachineNotIdle (m_current_status m))
                    else (True, AllSatisfied)))"

subsection \<open>Prioritisation\<close>

text \<open>
  \<open>prioritize_work_orders\<close> sorts a pandas data frame by the three columns with
  \<open>ascending=[False, True, True]\<close>. pandas sorts several columns with a stable
  lexicographic sort in which a descending column reverses the order of its keys, not
  of the rows: rows with equal keys keep their order. Here that is the stable
  insertion sort \<open>sort_key\<close> on the lexicographically ordered key
  \<open>(- priority, deadline, duration)\<close>.
\<close>

definition wo_sort_key :: "work_order \<Rightarrow> int \<times> timestamp \<times> int" where
  "wo_sort_key wo = (- priority wo, deadline wo, estimated_duration wo)"

definition pending_orders :: "engine \<Rightarrow> work_order list" where
  "pending_orders e = filter (\<lambda>wo. status wo = PENDING) (map snd (work_orders e))"

definition prioritize_work_orders :: "engine \<Rightarrow> work_order list" where
  "prioritize_work_orders e =
     (if pending_orders e = [] then [] else sort_key wo_sort_key (pending_orders e))"

subsection \<open>Best-match search\<close>

text \<open>
  The objects the search returns are mutated by the caller, so each candidate carries
  the key under which its dict holds it.
\<close>

type_synonym allocation = "(string \<times> operator) \<times> (string \<times> machine) \<times> real"

definition available_operators :: "engine \<Rightarrow> operator dict" where
  "available_operators e = filter (\<lambda>(k, oper). op_current_status oper = AVAILABLE) (operators e)"

definition idle_machines :: "engine \<Rightarrow> machine dict" where
  "idle_machines e = filter (\<lambda>(k, m). m_current_status m = IDLE) (machines e)"

definition candidates :: "engine \<Rightarrow> ((string \<times> operator) \<times> (string \<times> machine)) list" where
  "candidates e = List.product (available_operators e) (idle_machines e)"

fun search_step ::
  "engine \<Rightarrow> work_order \<Rightarrow> real \<times> allocation option \<Rightarrow>
   (string \<times> operator) \<times> (string \<times> machine) \<Rightarrow> real \<times> allocation option" where
  "search_step e wo (best_score, best_allocation) (oper, m) =
     (if \<not> fst (check_hard_constraints e wo (snd oper) (snd m))
      then (best_score, best_allocation)
      else (let score = calculate_allocation_score wo (snd oper) (snd m)
            in if score > best_score then (score, Some (oper, m, score))
               else (best_score, best_allocation)))"

definition find_best_allocation :: "engine \<Rightarrow> work_order \<Rightarrow> allocation option" where
  "find_best_allocation e wo = snd (foldl (search_step e wo) (- 1, None) (candidates e))"

subsection \<open>Allocation commit and the bulk pass\<close>

text \<open>
  \<open>datetime.now()\<close> is the parameter \<open>now\<close>. The lookup \<open>self.materials[...]\<close> in the
  reservation loop cannot raise: the chosen pair passed \<open>check_hard_constraints\<close> on
  the same, unchanged dict, so every required material is present (lemma
  \<open>commit_materials_present\<close> below).
\<close>

definition reserve :: "real \<Rightarrow> material \<Rightarrow> material" where
  "reserve q mat = mat\<lparr>quantity_reserved := quantity_reserved mat + q\<rparr>"

fun reserve_materials :: "material_requirement list \<Rightarrow> material dict \<Rightarrow> material dict" where
  "reserve_materials [] mats = mats"
| "reserve_materials (mat_req # rest) mats =
     reserve_materials rest
       (dict_modify (req_material_id mat_req) (reserve (req_quantity mat_req)) mats)"

definition assign_work_order :: "string \<Rightarrow> string \<Rightarrow> timestamp \<Rightarrow> work_order \<Rightarrow> work_order" where
  "assign_work_order oid mid now wo =
     wo\<lparr>assigned_operator := Some oid, assigned_machine := Some mid,
        status := IN_PROGRESS, start_time := Some now\<rparr>"

definition assign_operator :: "string \<Rightarrow> operator \<Rightarrow> operator" where
  "assign_operator wid oper =
     oper\<lparr>op_current_status := ASSIGNED, op_current_work_order := Some wid\<rparr>"

definition assign_machine :: "string \<Rightarrow> machine \<Rightarrow> machine" where
  "assign_machine wid m = m\<lparr>m_current_status := RUNNING, m_current_work_order := Some wid\<rparr>"

definition set_status :: "work_order_status \<Rightarrow> work_order \<Rightarrow> work_order" where
  "set_status st wo = wo\<lparr>status := st\<rparr>"

definition allocate_resources :: "timestamp \<Rightarrow> engine \<Rightarrow> string \<Rightarrow> bool \<times> engine" where
  "allocate_resources now e wid =
     (case map_of (work_orders e) wid of
        None \<Rightarrow> (False, e)
      | Some wo \<Rightarrow>
          (case find_best_allocation e wo of
             None \<Rightarrow>
               (False, e\<lparr>work_orders := dict_modify wid (set_status BLOCKED) (work_orders e)\<rparr>)
           | Some ((okey, oper), (mkey, m), score) \<Rightarrow>
               (True,
                e\<lparr>operators := dict_modify okey (assign_operator wid) (operators e),
                  machines := dict_modify mkey (assign_machine wid) (machines e),
                  materials := reserve_materials (required_materials wo) (materials e),
                  work_orders :=
                    dict_modify wid (assign_work_order (operator_id oper) (machine_id m) now)
                      (work_orders e),
                  last_reallocation_time := dict_set wid now (last_reallocation_time e)\<rparr>)))"

record allocation_results =
  allocated :: nat
  blocked :: nat
  total :: nat

fun allocate_each ::
  "timestamp \<Rightarrow> work_order list \<Rightarrow> allocation_results \<times> engine \<Rightarrow> allocation_results \<times> engine" where
  "allocate_each now [] (results, e) = (results, e)"
| "allocate_each now (wo # rest) (results, e) =
     (case allocate_resources now e (work_order_id wo) of
        (True, e') \<Rightarrow> allocate_each now rest (results\<lparr>allocated := allocated results + 1\<rparr>, e')
      | (False, e') \<Rightarrow> allocate_each now rest (results\<lparr>blocked := blocked results + 1\<rparr>, e'))"

definition process_allocations :: "timestamp \<Rightarrow> engine \<Rightarrow> allocation_results \<times> engine" where
  "process_allocations now e =
     (let prioritized_orders = prioritize_work_orders e
      in allocate_each now prioritized_orders
           (\<lparr>allocated = 0, blocked = 0, total = length prioritized_orders\<rparr>, e))"

section \<open>Event handlers (event\_handler.py)\<close>

text \<open>
  A handler either returns the new state (\<open>Inr\<close>) or raises; an uncaught \<open>KeyError\<close>
  of a subscript \<open>d[k]\<close> is \<open>Inl\<close> with the missing key and the state as mutated up to
  the raise. Printing has no effect on the state and is left out.
\<close>

datatype py_error = KeyError string

type_synonym outcome = "(py_error \<times> engine) + engine"

definition nonempty :: "string option \<Rightarrow> string option" where
  "nonempty x = (if truthy x then x else None)"

definition free_operator :: "operator \<Rightarrow> operator" where
  "free_operator oper = oper\<lparr>op_current_status := AVAILABLE, op_current_work_order := None\<rparr>"

definition free_machine :: "machine \<Rightarrow> machine" where
  "free_machine m = m\<lparr>m_current_status := IDLE, m_current_work_order := None\<rparr>"

text \<open>\<open>operator = self.engine.operators[ref]\<close> followed by freeing that operator.\<close>

definition release_operator :: "string \<Rightarrow> engine \<Rightarrow> outcome" where
  "release_operator oid e =
     (case map_of (operators e) oid of
        None \<Rightarrow> Inl (KeyError oid, e)
      | Some _ \<Rightarrow> Inr (e\<lparr>operators := dict_modify oid free_operator (operators e)\<rparr>))"

definition release_machine :: "string \<Rightarrow> engine \<Rightarrow> outcome" where
  "release_machine mid e =
     (case map_of (machines e) mid of
        None \<Rightarrow> Inl (KeyError mid, e)
      | Some _ \<Rightarrow> Inr (e\<lparr>machines := dict_modify mid free_machine (machines e)\<rparr>))"

definition pending_count :: "engine \<Rightarrow> nat" where
  "pending_count e = length (filter (\<lambda>wo. status wo = PENDING) (map snd (work_orders e)))"

definition handle_operator_available :: "timestamp \<Rightarrow> engine \<Rightarrow> string \<Rightarrow> engine" where
  "handle_operator_available now e oid =
     (case map_of (operators e) oid of
        None \<Rightarrow> e
      | Some _ \<Rightarrow>
          (let e1 = e\<lparr>operators := dict_modify oid free_operator (operators e)\<rparr>
           in if pending_count e1 > 0 then snd (process_allocations now e1) else e1))"

definition handle_machine_maintenance :: "timestamp \<Rightarrow> engine \<Rightarrow> string \<Rightarrow> engine" where
  "handle_machine_maintenance now e mid =
     (case map_of (machines e) mid of
        None \<Rightarrow> e
      | Some _ \<Rightarrow>
          e\<lparr>machines :=
              dict_modify mid
                (\<lambda>m. m\<lparr>m_current_status := MAINTENANCE, last_maintenance := Some now\<rparr>)
                (machines e)\<rparr>)"

definition consume :: "real \<Rightarrow> material \<Rightarrow> material" where
  "consume q mat =
     mat\<lparr>quantity_reserved := quantity_reserved mat - q,
         quantity_available := quantity_available mat - q\<rparr>"

fun release_materials ::
  "material_requirement list \<Rightarrow> material dict \<Rightarrow> (py_error \<times> material dict) + material dict" where
  "release_materials [] mats = Inr mats"
| "release_materials (mat_req # rest) mats =
     (case map_of mats (req_material_id mat_req) of
        None \<Rightarrow> Inl (KeyError (req_material_id mat_req), mats)
      | Some _ \<Rightarrow>
          release_materials rest
            (dict_modify (req_material_id mat_req) (consume (req_quantity mat_req)) mats))"

definition complete_work_order :: "timestamp \<Rightarrow> work_order \<Rightarrow> work_order" where
  "complete_work_order now wo =
     wo\<lparr>status := COMPLETED, completion_time := Some now, progress := 100\<rparr>"

text \<open>
  The fields \<open>assigned_operator\<close> and \<open>assigned_machine\<close> are read from the work-order
  object when the handler reaches them, the second after the cascade of
  \<open>handle_operator_available\<close>.
\<close>

definition wo_field :: "(work_order \<Rightarrow> string option) \<Rightarrow> engine \<Rightarrow> string \<Rightarrow> string option" where
  "wo_field f e wid = (case map_of (work_orders e) wid of None \<Rightarrow> None | Some wo \<Rightarrow> f wo)"

definition free_completed_resources :: "timestamp \<Rightarrow> engine \<Rightarrow> string \<Rightarrow> outcome" where
  "free_completed_resources now e wid =
     (let e1 = (case nonempty (wo_field assigned_operator e wid) of
                  None \<Rightarrow> e
                | Some oid \<Rightarrow> handle_operator_available now e oid)
      in case nonempty (wo_field assigned_machine e1 wid) of
           None \<Rightarrow> Inr e1
         | Some mid \<Rightarrow> release_machine mid e1)"

definition handle_work_order_completion :: "timestamp \<Rightarrow> engine \<Rightarrow> string \<Rightarrow> outcome" where
  "handle_work_order_completion now e wid =
     (case map_of (work_orders e) wid of
        None \<Rightarrow> Inr e
      | Some wo \<Rightarrow>
          (let e1 = e\<lparr>work_orders := dict_modify wid (complete_work_order now) (work_orders e)\<rparr>
           in case release_materials (required_materials wo) (materials e1) of
                Inl (err, mats) \<Rightarrow> Inl (err, e1\<lparr>materials := mats\<rparr>)
              | Inr mats \<Rightarrow> free_completed_resources now (e1\<lparr>materials := mats\<rparr>) wid))"

definition handle_machine_breakdown :: "timestamp \<Rightarrow> engine \<Rightarrow> string \<Rightarrow> outcome" where
  "handle_machine_breakdown now e mid =
     (case map_of (machines e) mid of
        None \<Rightarrow> Inr e
      | Some machine \<Rightarrow>
          (let e1 = e\<lparr>machines :=
                       dict_modify mid (\<lambda>m. m\<lparr>m_current_status := BREAKDOWN\<rparr>) (machines e)\<rparr>
           in case nonempty (m_current_work_order machine) of
                None \<Rightarrow> Inr e1
              | Some wid \<Rightarrow>
                  (case map_of (work_orders e1) wid of
                     None \<Rightarrow> Inl (KeyError wid, e1)
                   | Some wo0 \<Rightarrow>
                       (let operator_ref = assigned_operator wo0;
                            deallocate = (\<lambda>w. w\<lparr>assigned_machine := None, status := BLOCKED\<rparr>);
                            wo = deallocate wo0;
                            e2 = e1\<lparr>work_orders := dict_modify wid deallocate (work_orders e1)\<rparr>
                        in case find_best_allocation e2 wo of
                             Some ((okey, new_operator), (mkey, new_machine), score) \<Rightarrow>
                               (case nonempty operator_ref of
                                  None \<Rightarrow> Inr (snd (allocate_resources now e2 (work_order_id wo)))
                                | Some oid \<Rightarrow>
                                    if oid \<noteq> operator_id new_operator
                                    then (case release_operator oid e2 of
                                            Inl err \<Rightarrow> Inl err
                                          | Inr e3 \<Rightarrow>
                                              Inr (snd (allocate_resources now e3 (work_order_id wo))))
                                    else Inr (snd (allocate_resources now e2 (work_order_id wo))))
                           | None \<Rightarrow>
                               (case nonempty operator_ref of
                                  None \<Rightarrow> Inr e2
                                | Some oid \<Rightarrow>
                                    (case release_operator oid e2 of
                                       Inl err \<Rightarrow> Inl err
                                     | Inr e3 \<Rightarrow> Inr (snd (process_allocations now e3))))))))"

definition requires_material :: "string \<Rightarrow> work_order \<Rightarrow> bool" where
  "requires_material mid wo = list_ex (\<lambda>mat_req. req_material_id mat_req = mid) (required_materials wo)"

text \<open>
  The second loop of \<open>handle_material_shortage\<close>, over the keys of the affected work
  orders; each order is an object of the dict, read and mutated under its key.
\<close>

fun block_affected :: "string list \<Rightarrow> engine \<Rightarrow> outcome" where
  "block_affected [] e = Inr e"
| "block_affected (wid # rest) e =
     (case map_of (work_orders e) wid of
        None \<Rightarrow> block_affected rest e
      | Some wo \<Rightarrow>
          if status wo = IN_PROGRESS
          then (let e1 = e\<lparr>work_orders := dict_modify wid (set_status BLOCKED) (work_orders e)\<rparr>
                in case (case nonempty (assigned_operator wo) of
                           None \<Rightarrow> Inr e1
                         | Some oid \<Rightarrow> release_operator oid e1) of
                     Inl err \<Rightarrow> Inl err
                   | Inr e2 \<Rightarrow>
                       (case (case nonempty (assigned_machine wo) of
                                None \<Rightarrow> Inr e2
                              | Some mid \<Rightarrow> release_machine mid e2) of
                          Inl err \<Rightarrow> Inl err
                        | Inr e3 \<Rightarrow> block_affected rest e3))
          else block_affected rest e)"

definition handle_material_shortage :: "engine \<Rightarrow> string \<Rightarrow> outcome" where
  "handle_material_shortage e mid =
     (case map_of (materials e) mid of
        None \<Rightarrow> Inr e
      | Some _ \<Rightarrow>
          (let affected_orders = filter (\<lambda>(k, wo). requires_material mid wo) (work_orders e)
           in block_affected (map fst affected_orders) e))"

definition unblock :: "string \<Rightarrow> work_order \<Rightarrow> work_order" where
  "unblock mid wo =
     (if status wo = BLOCKED \<and> requires_material mid wo then wo\<lparr>status := PENDING\<rparr> else wo)"

definition handle_material_delivered :: "timestamp \<Rightarrow> engine \<Rightarrow> string \<Rightarrow> real \<Rightarrow> engine" where
  "handle_material_delivered now e mid quantity =
     (case map_of (materials e) mid of
        None \<Rightarrow> e
      | Some _ \<Rightarrow>
          (let e1 = e\<lparr>materials :=
                       dict_modify mid
                         (\<lambda>mat. mat\<lparr>quantity_available := quantity_available mat + quantity\<rparr>)
                         (materials e)\<rparr>;
               unblocked = length (filter (\<lambda>(k, wo). status wo = BLOCKED \<and> requires_material mid wo)
                                      (work_orders e1));
               e2 = e1\<lparr>work_orders := map (\<lambda>(k, wo). (k, unblock mid wo)) (work_orders e1)\<rparr>
           in if unblocked > 0 then snd (process_allocations now e2) else e2))"

text \<open>
  An event of the queue, with its payload; \<open>process_events\<close> dispatches on the type
  tag. Its list of events is the queue in the order the heap pops it. An exception of
  a handler is not caught and ends the loop.
\<close>

datatype event =
    MachineBreakdown string
  | MachineMaintenance string
  | OperatorAvailable string
  | WorkOrderComplete string
  | MaterialShortage string
  | MaterialDelivered string real
  | UnknownEvent string

fun handle_event :: "timestamp \<Rightarrow> engine \<Rightarrow> event \<Rightarrow> outcome" where
  "handle_event now e (MachineBreakdown mid) = handle_machine_breakdown now e mid"
| "handle_event now e (MachineMaintenance mid) = Inr (handle_machine_maintenance now e mid)"
| "handle_event now e (OperatorAvailable oid) = Inr (handle_operator_available now e oid)"
| "handle_event now e (WorkOrderComplete wid) = handle_work_order_completion now e wid"
| "handle_event now e (MaterialShortage mid) = handle_material_shortage e mid"
| "handle_event now e (MaterialDelivered mid quantity) =
     Inr (handle_material_delivered now e mid quantity)"
| "handle_event now e (UnknownEvent tag) = Inr e"

fun process_events :: "timestamp \<Rightarrow> event list \<Rightarrow> engine \<Rightarrow> outcome" where
  "process_events now [] e = Inr e"
| "process_events now (ev # rest) e =
     (case handle_event now e ev of
        Inl err \<Rightarrow> Inl err
      | Inr e' \<Rightarrow> process_events now rest e')"

section \<open>Specification predicates\<close>

text \<open>The four eligibility checks as the specification words them.\<close>

definition skills_ok :: "work_order \<Rightarrow> operator \<Rightarrow> bool" where
  "skills_ok wo oper = (set (required_skills wo) \<subseteq> set (skills oper))"

definition capability_ok :: "work_order \<Rightarrow> machine \<Rightarrow> bool" where
  "capability_ok wo m = (required_machine_capability wo \<in> set (capabilities m))"

definition material_ok :: "engine \<Rightarrow> material_requirement \<Rightarrow> bool" where
  "material_ok e mat_req =
     (case map_of (materials e) (req_material_id mat_req) of
        None \<Rightarrow> False
      | Some mat \<Rightarrow> quantity_available mat - quantity_reserved mat \<ge> req_quantity mat_req)"

definition materials_ok :: "engine \<Rightarrow> work_order \<Rightarrow> bool" where
  "materials_ok e wo = list_all (material_ok e) (required_materials wo)"

definition material_failure :: "engine \<Rightarrow> material_requirement \<Rightarrow> reason" where
  "material_failure e mat_req =
     (case map_of (materials e) (req_material_id mat_req) of
        None \<Rightarrow> MaterialNotFound (req_material_id mat_req)
      | Some mat \<Rightarrow>
          InsufficientMaterial (req_material_id mat_req) (req_quantity mat_req)
            (quantity_available mat - quantity_reserved mat))"

definition passes :: "engine \<Rightarrow> work_order \<Rightarrow> operator \<Rightarrow> machine \<Rightarrow> bool" where
  "passes e wo oper m =
     (skills_ok wo oper \<and> capability_ok wo m \<and> materials_ok e wo
      \<and> op_current_status oper = AVAILABLE \<and> m_current_status m = IDLE)"

text \<open>
  The order of the prioritised list: priority descending, then deadline ascending,
  then estimated duration ascending; \<open>same_keys\<close> holds of two work orders that agree
  on all three.
\<close>

definition precedes :: "work_order \<Rightarrow> work_order \<Rightarrow> bool" where
  "precedes a b =
     (priority a > priority b
      \<or> (priority a = priority b
          \<and> (deadline a < deadline b
              \<or> (deadline a = deadline b \<and> estimated_duration a \<le> estimated_duration b))))"

definition same_keys :: "work_order \<Rightarrow> work_order \<Rightarrow> bool" where
  "same_keys a b =
     (priority a = priority b \<and> deadline a = deadline b
      \<and> estimated_duration a = estimated_duration b)"


definition pair_passes :: "engine \<Rightarrow> work_order \<Rightarrow> (string \<times> operator) \<times> (string \<times> machine) \<Rightarrow> bool" where
  "pair_passes e wo c = passes e wo (snd (fst c)) (snd (snd c))"

definition pair_score :: "work_order \<Rightarrow> (string \<times> operator) \<times> (string \<times> machine) \<Rightarrow> real" where
  "pair_score wo c = calculate_allocation_score wo (snd (fst c)) (snd (snd c))"

definition required_levels_in_range :: "work_order \<Rightarrow> operator \<Rightarrow> bool" where
  "required_levels_in_range wo oper =
     list_all (\<lambda>l. 0 \<le> l \<and> l \<le> 5) (required_skill_levels wo oper)"


text \<open>
  The quantity a list of requirements asks of one material, and the effect of
  reserving that much.
\<close>

definition req_total :: "string \<Rightarrow> material_requirement list \<Rightarrow> real" where
  "req_total k reqs = sum_list (map req_quantity (filter (\<lambda>r. req_material_id r = k) reqs))"

definition add_reserved :: "real \<Rightarrow> material \<Rightarrow> material" where
  "add_reserved q mat = mat\<lparr>quantity_reserved := quantity_reserved mat + q\<rparr>"

text \<open>
  Observations of a material by its key, well-formedness of the work-order dict (keys
  are distinct and name their own order), presence of the identifiers a work order
  refers to, and the state and exception of a handler's outcome.
\<close>

definition available_of :: "engine \<Rightarrow> string \<Rightarrow> real option" where
  "available_of e k = map_option quantity_available (map_of (materials e) k)"

definition reserved_of :: "engine \<Rightarrow> string \<Rightarrow> real option" where
  "reserved_of e k = map_option quantity_reserved (map_of (materials e) k)"

definition default_zero :: "real option \<Rightarrow> real" where
  "default_zero x = (case x of None \<Rightarrow> 0 | Some a \<Rightarrow> a)"

definition total_available :: "engine \<Rightarrow> real" where
  "total_available e = sum_list (map (\<lambda>(k, mat). quantity_available mat) (materials e))"

definition work_order_keys_ok :: "engine \<Rightarrow> bool" where
  "work_order_keys_ok e =
     (distinct (map fst (work_orders e))
      \<and> list_all (\<lambda>(k, wo). work_order_id wo = k) (work_orders e))"

definition materials_present :: "engine \<Rightarrow> work_order \<Rightarrow> bool" where
  "materials_present e wo =
     list_all (\<lambda>r. map_of (materials e) (req_material_id r) \<noteq> None) (required_materials wo)"

definition machine_present :: "engine \<Rightarrow> work_order \<Rightarrow> bool" where
  "machine_present e wo =
     (case nonempty (assigned_machine wo) of
        None \<Rightarrow> True
      | Some mid \<Rightarrow> map_of (machines e) mid \<noteq> None)"

definition no_other_pending :: "engine \<Rightarrow> string \<Rightarrow> bool" where
  "no_other_pending e wid = list_all (\<lambda>(k, wo). k = wid \<or> status wo \<noteq> PENDING) (work_orders e)"

definition outcome_state :: "outcome \<Rightarrow> engine" where
  "outcome_state r = (case r of Inl (err, e) \<Rightarrow> e | Inr e \<Rightarrow> e)"

definition raised :: "outcome \<Rightarrow> py_error option" where
  "raised r = (case r of Inl (err, e) \<Rightarrow> Some err | Inr e \<Rightarrow> None)"

text \<open>The material invariant of the data model.\<close>

definition reservation_invariant :: "engine \<Rightarrow> bool" where
  "reservation_invariant e =
     list_all (\<lambda>(k, mat). 0 \<le> quantity_reserved mat \<and> quantity_reserved mat \<le> quantity_available mat)
       (materials e)"

text \<open>
  The consistency of work orders in progress: such an order names an operator and a
  machine of the catalog, the operator is \<open>ASSIGNED\<close> and the machine \<open>RUNNING\<close>, and
  both point back at the order's key. A catalog is well formed when the keys of its
  dicts are distinct and are the identifiers of the objects they hold.
\<close>

definition order_consistent :: "engine \<Rightarrow> string \<Rightarrow> work_order \<Rightarrow> bool" where
  "order_consistent e k wo =
     (status wo = IN_PROGRESS \<longrightarrow>
        (case (assigned_operator wo, assigned_machine wo) of
           (Some oid, Some mid) \<Rightarrow>
             (case map_of (operators e) oid of
                None \<Rightarrow> False
              | Some oper \<Rightarrow>
                  op_current_status oper = ASSIGNED \<and> op_current_work_order oper = Some k)
             \<and> (case map_of (machines e) mid of
                  None \<Rightarrow> False
                | Some m \<Rightarrow> m_current_status m = RUNNING \<and> m_current_work_order m = Some k)
         | _ \<Rightarrow> False))"

definition in_progress_consistent :: "engine \<Rightarrow> bool" where
  "in_progress_consistent e = list_all (\<lambda>(k, wo). order_consistent e k wo) (work_orders e)"

definition catalog_ok :: "engine \<Rightarrow> bool" where
  "catalog_ok e =
     (work_order_keys_ok e
      \<and> distinct (map fst (operators e))
      \<and> list_all (\<lambda>(k, oper). operator_id oper = k) (operators e)
      \<and> distinct (map fst (machines e))
      \<and> list_all (\<lambda>(k, m). machine_id m = k) (machines e))"


text \<open>
  No work order in progress refers to the operator, or to the machine; the work order
  under a key, if any, is in progress; the work order a machine points at, if any, is
  in progress.
\<close>

definition operator_unreferenced :: "engine \<Rightarrow> string \<Rightarrow> bool" where
  "operator_unreferenced e oid =
     list_all (\<lambda>(k, wo). status wo = IN_PROGRESS \<longrightarrow> assigned_operator wo \<noteq> Some oid)
       (work_orders e)"

definition machine_unreferenced :: "engine \<Rightarrow> string \<Rightarrow> bool" where
  "machine_unreferenced e mid =
     list_all (\<lambda>(k, wo). status wo = IN_PROGRESS \<longrightarrow> assigned_machine wo \<noteq> Some mid)
       (work_orders e)"



section \<open>Fixtures\<close>

text \<open>
  The scenario of the specification: an operator with skills welding (level 5) and
  assembly (level 4), a machine with capability welding and cycle time 30, a work
  order requiring welding and 50 units of a material of which 1000 are available and
  none reserved.
\<close>

definition ex_operator :: operator where
  "ex_operator =
     \<lparr>operator_id = ''OP1'', op_name = ''Ann'', skills = [''welding'', ''assembly''],
      skill_levels = [(''welding'', 5), (''assembly'', 4)], op_current_status = AVAILABLE,
      op_current_work_order = None, shift_start = None, shift_end = None,
      op_location = ''Z1'', hourly_cost = 25\<rparr>"

definition ex_machine :: machine where
  "ex_machine =
     \<lparr>machine_id = ''M1'', m_name = ''Welder'', capabilities = [''welding''],
      m_current_status = IDLE, m_current_work_order = None, m_location = ''Z1'',
      cycle_time = 30, maintenance_schedule = None, last_maintenance = None,
      operating_cost_per_hour = 15\<rparr>"

definition ex_material :: material where
  "ex_material =
     \<lparr>material_id = ''MAT1'', mat_name = ''Steel'', quantity_available = 1000,
      quantity_reserved = 0, mat_location = ''Z1'', unit_of_measure = ''kg'',
      reorder_point = 200, expected_delivery = None, cost_per_unit = 5\<rparr>"

definition ex_work_order :: work_order where
  "ex_work_order =
     \<lparr>work_order_id = ''WO1'', priority = 10, required_skills = [''welding''],
      required_machine_capability = ''welding'',
      required_materials = [\<lparr>req_material_id = ''MAT1'', req_quantity = 50\<rparr>],
      estimated_duration = 120, deadline = 480, status = PENDING,
      assigned_operator = None, assigned_machine = None, start_time = None,
      completion_time = None, wo_location = ''Z1'', progress = 0\<rparr>"

definition ex_engine :: engine where
  "ex_engine =
     \<lparr>operators = [(''OP1'', ex_operator)], machines = [(''M1'', ex_machine)],
      materials = [(''MAT1'', ex_material)], work_orders = [(''WO1'', ex_work_order)],
      last_reallocation_time = []\<rparr>"


text \<open>
  A queue of six work orders with one deadline and one duration: priorities 10, 8, 9,
  7, 6 and 8, the fourth order blocked.
\<close>

definition ex_queue :: engine where
  "ex_queue =
     ex_engine\<lparr>work_orders :=
       [(''WO1'', ex_work_order),
        (''WO2'', ex_work_order\<lparr>work_order_id := ''WO2'', priority := 8\<rparr>),
        (''WO3'', ex_work_order\<lparr>work_order_id := ''WO3'', priority := 9\<rparr>),
        (''WO4'', ex_work_order\<lparr>work_order_id := ''WO4'', priority := 7, status := BLOCKED\<rparr>),
        (''WO5'', ex_work_order\<lparr>work_order_id := ''WO5'', priority := 6\<rparr>),
        (''WO6'', ex_work_order\<lparr>work_order_id := ''WO6'', priority := 8\<rparr>)]\<rparr>"

text \<open>The same catalog with only 10 units of the material available.\<close>

definition ex_short :: engine where
  "ex_short = ex_engine\<lparr>materials := [(''MAT1'', ex_material\<lparr>quantity_available := 10\<rparr>)]\<rparr>"

text \<open>
  The catalog after the work order has been allocated at time 7; the same with a
  second machine and a second, pending work order that needs 30 units of the same
  material; the short catalog after its failed allocation; a work order that lists the
  same material twice.
\<close>

definition ex_running_order :: work_order where
  "ex_running_order =
     ex_work_order\<lparr>assigned_operator := Some ''OP1'', assigned_machine := Some ''M1'',
                   status := IN_PROGRESS, start_time := Some 7\<rparr>"

definition ex_running :: engine where
  "ex_running =
     \<lparr>operators = [(''OP1'', ex_operator\<lparr>op_current_status := ASSIGNED,
                                         op_current_work_order := Some ''WO1''\<rparr>)],
      machines = [(''M1'', ex_machine\<lparr>m_current_status := RUNNING,
                                      m_current_work_order := Some ''WO1''\<rparr>)],
      materials = [(''MAT1'', ex_material\<lparr>quantity_reserved := 50\<rparr>)],
      work_orders = [(''WO1'', ex_work_order\<lparr>assigned_operator := Some ''OP1'',
                                             assigned_machine := Some ''M1'',
                                             status := IN_PROGRESS, start_time := Some 7\<rparr>)],
      last_reallocation_time = [(''WO1'', 7)]\<rparr>"

definition ex_second_order :: work_order where
  "ex_second_order =
     ex_work_order\<lparr>work_order_id := ''WO2'', priority := 5,
                   required_materials := [\<lparr>req_material_id = ''MAT1'', req_quantity = 30\<rparr>]\<rparr>"

definition ex_two :: engine where
  "ex_two =
     ex_engine\<lparr>machines := machines ex_engine @ [(''M2'', ex_machine\<lparr>machine_id := ''M2''\<rparr>)],
               work_orders := work_orders ex_engine @ [(''WO2'', ex_second_order)]\<rparr>"

definition ex_two_running :: engine where
  "ex_two_running =
     ex_running\<lparr>machines := machines ex_running @ [(''M2'', ex_machine\<lparr>machine_id := ''M2''\<rparr>)],
                work_orders := work_orders ex_running @ [(''WO2'', ex_second_order)]\<rparr>"

definition ex_blocked :: engine where
  "ex_blocked = ex_short\<lparr>work_orders := [(''WO1'', ex_work_order\<lparr>status := BLOCKED\<rparr>)]\<rparr>"

definition ex_double :: engine where
  "ex_double =
     ex_engine\<lparr>work_orders :=
       [(''WO1'', ex_work_order\<lparr>required_materials :=
           [\<lparr>req_material_id = ''MAT1'', req_quantity = 600\<rparr>,
            \<lparr>req_material_id = ''MAT1'', req_quantity = 600\<rparr>]\<rparr>)]\<rparr>"







section \<open>Properties\<close>

lemmas ex_defs = ex_operator_def ex_machine_def ex_material_def ex_work_order_def ex_engine_def

lemmas eval_defs =
  allocate_resources_def find_best_allocation_def candidates_def available_operators_def
  idle_machines_def check_hard_constraints_def calculate_allocation_score_def
  skill_match_quality_def required_skill_levels_def proximity_factor_def calculate_distance_def
  machine_efficiency_def cost_optimization_def Let_def reserve_def assign_work_order_def
  assign_operator_def assign_machine_def set_status_def process_allocations_def
  prioritize_work_orders_def pending_orders_def wo_sort_key_def nonempty_def truthy_def
  free_operator_def free_machine_def release_operator_def release_machine_def pending_count_def
  handle_operator_available_def handle_machine_maintenance_def consume_def
  complete_work_order_def wo_field_def free_completed_resources_def
  handle_work_order_completion_def handle_machine_breakdown_def requires_material_def
  handle_material_shortage_def unblock_def handle_material_delivered_def

subsection \<open>The constraint checker\<close>

lemma check_skills_find:
  "check_skills req have = map_option MissingSkill (find (\<lambda>s. s \<notin> set have) req)"
  by (induction req) auto

lemma check_materials_find:
  "check_materials (materials e) reqs =
     map_option (material_failure e) (find (\<lambda>r. \<not> material_ok e r) reqs)"
  by (induction reqs) (auto simp: material_ok_def material_failure_def Let_def split: option.splits)

lemma find_None_skills: "(find (\<lambda>s. s \<notin> set have) req = None) = (set req \<subseteq> set have)"
  by (auto simp: find_None_iff)

lemma find_None_materials:
  "(find (\<lambda>r. \<not> material_ok e r) reqs = None) = list_all (material_ok e) reqs"
  by (auto simp: find_None_iff list_all_iff)

lemma check_hard_constraints_eq:
  "check_hard_constraints e wo oper m =
     (case find (\<lambda>s. s \<notin> set (skills oper)) (required_skills wo) of
        Some s \<Rightarrow> (False, MissingSkill s)
      | None \<Rightarrow>
          if \<not> capability_ok wo m then (False, LacksCapability)
          else (case find (\<lambda>r. \<not> material_ok e r) (required_materials wo) of
                  Some r \<Rightarrow> (False, material_failure e r)
                | None \<Rightarrow>
                    if op_current_status oper \<noteq> AVAILABLE
                    then (False, OperatorNotAvailable (op_current_status oper))
                    else if m_current_status m \<noteq> IDLE
                    then (False, MachineNotIdle (m_current_status m))
                    else (True, AllSatisfied)))"
  unfolding check_hard_constraints_def check_skills_find check_materials_find capability_ok_def
  by (auto split: option.splits)

lemma fst_check_passes: "fst (check_hard_constraints e wo oper m) = passes e wo oper m"
  unfolding check_hard_constraints_def passes_def check_skills_find check_materials_find
    skills_ok_def materials_ok_def capability_ok_def
    find_None_skills[symmetric] find_None_materials[symmetric]
  by (auto split: option.splits)

lemma ex_passes: "passes ex_engine ex_work_order ex_operator ex_machine"
  by (simp add: passes_def skills_ok_def capability_ok_def materials_ok_def material_ok_def ex_defs)

text \<open>
  Claim C8. \<open>check_hard_constraints\<close> evaluates its checks in the fixed order skills,
  capability, materials, resource status, and fails with the reason of the first check
  that is violated: the first required skill the operator lacks, the missing
  capability, the first requirement whose material is absent or insufficient, the
  operator's status, the machine's status. A missing material is reported as
  \<open>MaterialNotFound\<close>, an insufficient one as \<open>InsufficientMaterial\<close>. It passes if
  and only if all four checks hold. It is a function of its arguments and returns no
  state.
\<close>

theorem check_hard_constraints_order:
  "check_hard_constraints e wo oper m =
     (case find (\<lambda>s. s \<notin> set (skills oper)) (required_skills wo) of
        Some s \<Rightarrow> (False, MissingSkill s)
      | None \<Rightarrow>
          if \<not> capability_ok wo m then (False, LacksCapability)
          else (case find (\<lambda>r. \<not> material_ok e r) (required_materials wo) of
                  Some r \<Rightarrow> (False, material_failure e r)
                | None \<Rightarrow>
                    if op_current_status oper \<noteq> AVAILABLE
                    then (False, OperatorNotAvailable (op_current_status oper))
                    else if m_current_status m \<noteq> IDLE
                    then (False, MachineNotIdle (m_current_status m))
                    else (True, AllSatisfied)))
   \<and> (fst (check_hard_constraints e wo oper m) \<longleftrightarrow> passes e wo oper m)
   \<and> (\<forall>r. material_failure e r = MaterialNotFound (req_material_id r)
            \<longleftrightarrow> map_of (materials e) (req_material_id r) = None)"
proof (intro conjI)
  show "\<forall>r. material_failure e r = MaterialNotFound (req_material_id r)
            \<longleftrightarrow> map_of (materials e) (req_material_id r) = None"
    by (simp add: material_failure_def split: option.splits)
qed (rule check_hard_constraints_eq fst_check_passes)+

theorem check_hard_constraints_order_witness:
  "passes ex_engine ex_work_order ex_operator ex_machine
   \<and> fst (check_hard_constraints ex_engine ex_work_order ex_operator ex_machine)
   \<and> check_hard_constraints (ex_engine\<lparr>materials := []\<rparr>) ex_work_order ex_operator ex_machine
       = (False, MaterialNotFound ''MAT1'')
   \<and> check_hard_constraints ex_engine ex_work_order (ex_operator\<lparr>skills := []\<rparr>)
        (ex_machine\<lparr>capabilities := []\<rparr>)
       = (False, MissingSkill ''welding'')"
proof -
  have "fst (check_hard_constraints ex_engine ex_work_order ex_operator ex_machine)"
    using check_hard_constraints_order[of ex_engine ex_work_order ex_operator ex_machine]
      ex_passes by blast
  moreover have "check_hard_constraints (ex_engine\<lparr>materials := []\<rparr>) ex_work_order
      ex_operator ex_machine = (False, MaterialNotFound ''MAT1'')"
    using check_hard_constraints_order[of "ex_engine\<lparr>materials := []\<rparr>" ex_work_order
        ex_operator ex_machine]
    by (simp add: ex_defs capability_ok_def material_ok_def material_failure_def)
  moreover have "check_hard_constraints ex_engine ex_work_order (ex_operator\<lparr>skills := []\<rparr>)
        (ex_machine\<lparr>capabilities := []\<rparr>) = (False, MissingSkill ''welding'')"
    using check_hard_constraints_order[of ex_engine ex_work_order "ex_operator\<lparr>skills := []\<rparr>"
        "ex_machine\<lparr>capabilities := []\<rparr>"]
    by (simp add: ex_defs)
  ultimately show ?thesis using ex_passes by simp
qed

subsection \<open>The allocation score\<close>

lemma sum_list_bounds:
  fixes ls :: "int list"
  assumes "\<forall>l \<in> set ls. 0 \<le> l \<and> l \<le> 5"
  shows "0 \<le> sum_list ls \<and> sum_list ls \<le> 5 * int (length ls)"
  using assms by (induction ls) auto

lemma skill_match_quality_bounds:
  assumes "\<forall>l \<in> set (required_skill_levels wo oper). 0 \<le> l \<and> l \<le> 5"
  shows "0 \<le> skill_match_quality wo oper \<and> skill_match_quality wo oper \<le> 1"
proof (cases "required_skill_levels wo oper = []")
  case True
  then show ?thesis by (simp add: skill_match_quality_def)
next
  case False
  let ?ls = "required_skill_levels wo oper"
  have n: "0 < real (length ?ls)" using False by simp
  from sum_list_bounds[OF assms]
  have "0 \<le> real_of_int (sum_list ?ls)" and "real_of_int (sum_list ?ls) \<le> 5 * real (length ?ls)"
    by (simp, metis of_int_le_iff of_int_mult of_int_numeral of_int_of_nat_eq)
  with n show ?thesis using False
    by (simp add: skill_match_quality_def Let_def divide_le_eq)
qed

lemma proximity_factor_bounds:
  "0.9 \<le> proximity_factor wo oper m \<and> proximity_factor wo oper m \<le> 1"
  by (simp add: proximity_factor_def calculate_distance_def Let_def)

lemma machine_efficiency_bounds: "0 \<le> machine_efficiency m \<and> machine_efficiency m \<le> 1"
  by (simp add: machine_efficiency_def Let_def)

lemma cost_optimization_lower: "0 \<le> cost_optimization oper m"
  by (simp add: cost_optimization_def Let_def)

lemma cost_optimization_upper:
  "cost_optimization oper m \<le> 1 \<longleftrightarrow> 0 \<le> hourly_cost oper + operating_cost_per_hour m"
  by (simp add: cost_optimization_def Let_def min_def)

text \<open>
  Claim C9 at an operator with an hourly cost of -100. The docstring of
  \<open>calculate_allocation_score\<close> promises a score between 0 and 1, and the
  machine-efficiency term is clamped on both sides; the cost term is capped from below
  only, so it is 1.85 here and the score is 1.035.
\<close>

theorem calculate_allocation_score_exceeds_one:
  "cost_optimization (ex_operator\<lparr>hourly_cost := - 100\<rparr>) ex_machine = 37 / 20
   \<and> calculate_allocation_score ex_work_order (ex_operator\<lparr>hourly_cost := - 100\<rparr>) ex_machine
       = 207 / 200
   \<and> \<not> calculate_allocation_score ex_work_order (ex_operator\<lparr>hourly_cost := - 100\<rparr>) ex_machine
         \<le> 1"
  by (simp add: calculate_allocation_score_def skill_match_quality_def required_skill_levels_def
      proximity_factor_def calculate_distance_def machine_efficiency_def cost_optimization_def
      ex_defs Let_def)

text \<open>
  Where the promised range does hold: when the level of every required skill lies
  between 0 and 5 and the total hourly cost is not negative, each of the four terms
  lies in the unit interval, and so does their weighted sum.
\<close>

lemma calculate_allocation_score_bounds:
  assumes "required_levels_in_range wo oper"
    and "0 \<le> hourly_cost oper + operating_cost_per_hour m"
  shows "calculate_allocation_score wo oper m =
           0.4 * skill_match_quality wo oper + 0.3 * proximity_factor wo oper m
           + 0.2 * machine_efficiency m + 0.1 * cost_optimization oper m
       \<and> 0 \<le> skill_match_quality wo oper \<and> skill_match_quality wo oper \<le> 1
       \<and> 0 \<le> proximity_factor wo oper m \<and> proximity_factor wo oper m \<le> 1
       \<and> 0 \<le> machine_efficiency m \<and> machine_efficiency m \<le> 1
       \<and> 0 \<le> cost_optimization oper m \<and> cost_optimization oper m \<le> 1
       \<and> 0 \<le> calculate_allocation_score wo oper m \<and> calculate_allocation_score wo oper m \<le> 1"
proof -
  have "\<forall>l \<in> set (required_skill_levels wo oper). 0 \<le> l \<and> l \<le> 5"
    using assms(1) by (simp add: required_levels_in_range_def list_all_iff)
  note s = skill_match_quality_bounds[OF this]
  note p = proximity_factor_bounds[of wo oper m]
  note f = machine_efficiency_bounds[of m]
  note c = cost_optimization_lower[of oper m]
  have c1: "cost_optimization oper m \<le> 1" using assms(2) by (simp add: cost_optimization_upper)
  show ?thesis using s p f c c1 unfolding calculate_allocation_score_def by simp
qed

lemma calculate_allocation_score_bounds_example:
  "required_levels_in_range ex_work_order ex_operator
   \<and> 0 \<le> hourly_cost ex_operator + operating_cost_per_hour ex_machine
   \<and> 0 \<le> calculate_allocation_score ex_work_order ex_operator ex_machine
   \<and> calculate_allocation_score ex_work_order ex_operator ex_machine \<le> 1"
proof -
  have h1: "required_levels_in_range ex_work_order ex_operator"
    by (simp add: required_levels_in_range_def required_skill_levels_def ex_defs)
  have h2: "0 \<le> hourly_cost ex_operator + operating_cost_per_hour ex_machine"
    by (simp add: ex_defs)
  show ?thesis using calculate_allocation_score_bounds[OF h1 h2] h1 h2 by blast
qed

subsection \<open>Prioritisation\<close>

lemma wo_sort_key_le: "wo_sort_key a \<le> wo_sort_key b \<longleftrightarrow> precedes a b"
  by (auto simp: wo_sort_key_def precedes_def less_eq_prod_def)

lemma wo_sort_key_eq: "wo_sort_key a = wo_sort_key b \<longleftrightarrow> same_keys b a"
  by (auto simp: wo_sort_key_def same_keys_def)

lemma prioritize_eq: "prioritize_work_orders e = sort_key wo_sort_key (pending_orders e)"
  by (simp add: prioritize_work_orders_def)

text \<open>
  Claim C4. \<open>prioritize_work_orders\<close> returns exactly the work orders whose status is
  \<open>PENDING\<close> (as a multiset), ordered by priority descending, then deadline ascending,
  then estimated duration ascending; work orders that agree on all three keys keep the
  order they have in the catalog.
\<close>

theorem prioritize_work_orders_sorted_stable:
  "mset (prioritize_work_orders e)
     = mset (filter (\<lambda>wo. status wo = PENDING) (map snd (work_orders e)))
   \<and> sorted_wrt precedes (prioritize_work_orders e)
   \<and> (\<forall>w. filter (same_keys w) (prioritize_work_orders e)
          = filter (same_keys w) (filter (\<lambda>wo. status wo = PENDING) (map snd (work_orders e))))"
proof (intro conjI allI)
  show "mset (prioritize_work_orders e)
     = mset (filter (\<lambda>wo. status wo = PENDING) (map snd (work_orders e)))"
    by (simp add: prioritize_eq pending_orders_def)
next
  have "sorted (map wo_sort_key (prioritize_work_orders e))"
    by (simp add: prioritize_eq)
  then show "sorted_wrt precedes (prioritize_work_orders e)"
    by (simp add: sorted_wrt_map wo_sort_key_le)
next
  fix w
  have "filter (\<lambda>y. wo_sort_key y = wo_sort_key w) (prioritize_work_orders e)
      = filter (\<lambda>y. wo_sort_key y = wo_sort_key w) (pending_orders e)"
    unfolding prioritize_eq by (rule sort_key_stable)
  then show "filter (same_keys w) (prioritize_work_orders e)
          = filter (same_keys w) (filter (\<lambda>wo. status wo = PENDING) (map snd (work_orders e)))"
    by (simp add: wo_sort_key_eq pending_orders_def)
qed

theorem prioritize_work_orders_sorted_stable_witness:
  "sorted_wrt precedes (prioritize_work_orders ex_queue)
   \<and> map work_order_id (prioritize_work_orders ex_queue)
       = [''WO1'', ''WO3'', ''WO2'', ''WO6'', ''WO5'']"
proof -
  have "map work_order_id (prioritize_work_orders ex_queue)
       = [''WO1'', ''WO3'', ''WO2'', ''WO6'', ''WO5'']"
    by (simp add: prioritize_work_orders_def pending_orders_def ex_queue_def ex_defs
        wo_sort_key_def)
  with prioritize_work_orders_sorted_stable[of ex_queue] show ?thesis by blast
qed

subsection \<open>Best-match search\<close>

lemma search_step_eq:
  "search_step e wo (b, a) c =
     (if pair_passes e wo c \<and> pair_score wo c > b then (pair_score wo c, Some (fst c, snd c, pair_score wo c))
      else (b, a))"
  by (cases c) (simp add: pair_passes_def pair_score_def fst_check_passes Let_def)

lemma search_fold:
  "foldl (search_step e wo) (b, a) cs = (b', a') \<Longrightarrow>
     ((\<forall>c \<in> set cs. pair_passes e wo c \<longrightarrow> pair_score wo c \<le> b) \<and> b' = b \<and> a' = a)
     \<or> (\<exists>pre c post. cs = pre @ c # post \<and> pair_passes e wo c \<and> b < pair_score wo c
           \<and> b' = pair_score wo c \<and> a' = Some (fst c, snd c, pair_score wo c)
           \<and> (\<forall>x \<in> set pre. pair_passes e wo x \<longrightarrow> pair_score wo x < pair_score wo c)
           \<and> (\<forall>x \<in> set post. pair_passes e wo x \<longrightarrow> pair_score wo x \<le> pair_score wo c))"
proof (induction cs arbitrary: b a)
  case Nil
  then show ?case by simp
next
  case (Cons c cs)
  show ?case
  proof (cases "pair_passes e wo c \<and> pair_score wo c > b")
    case True
    let ?s = "pair_score wo c"
    from Cons.prems True
    have f: "foldl (search_step e wo) (?s, Some (fst c, snd c, ?s)) cs = (b', a')"
      by (simp add: search_step_eq)
    from Cons.IH[OF f] show ?thesis
    proof (elim disjE exE conjE)
      assume "\<forall>x \<in> set cs. pair_passes e wo x \<longrightarrow> pair_score wo x \<le> ?s"
        and "b' = ?s" and "a' = Some (fst c, snd c, ?s)"
      with True have "c # cs = [] @ c # cs \<and> pair_passes e wo c \<and> b < ?s
           \<and> b' = ?s \<and> a' = Some (fst c, snd c, ?s)
           \<and> (\<forall>x \<in> set []. pair_passes e wo x \<longrightarrow> pair_score wo x < ?s)
           \<and> (\<forall>x \<in> set cs. pair_passes e wo x \<longrightarrow> pair_score wo x \<le> ?s)"
        by simp
      then show ?thesis by blast
    next
      fix pre d post
      assume h: "cs = pre @ d # post" "pair_passes e wo d" "?s < pair_score wo d"
        "b' = pair_score wo d" "a' = Some (fst d, snd d, pair_score wo d)"
        "\<forall>x \<in> set pre. pair_passes e wo x \<longrightarrow> pair_score wo x < pair_score wo d"
        "\<forall>x \<in> set post. pair_passes e wo x \<longrightarrow> pair_score wo x \<le> pair_score wo d"
      with True have "c # cs = (c # pre) @ d # post \<and> pair_passes e wo d \<and> b < pair_score wo d
           \<and> b' = pair_score wo d \<and> a' = Some (fst d, snd d, pair_score wo d)
           \<and> (\<forall>x \<in> set (c # pre). pair_passes e wo x \<longrightarrow> pair_score wo x < pair_score wo d)
           \<and> (\<forall>x \<in> set post. pair_passes e wo x \<longrightarrow> pair_score wo x \<le> pair_score wo d)"
        by auto
      then show ?thesis by blast
    qed
  next
    case False
    from Cons.prems False
    have f: "foldl (search_step e wo) (b, a) cs = (b', a')"
      by (simp add: search_step_eq)
    from Cons.IH[OF f] show ?thesis
    proof (elim disjE exE conjE)
      assume "\<forall>x \<in> set cs. pair_passes e wo x \<longrightarrow> pair_score wo x \<le> b" "b' = b" "a' = a"
      with False show ?thesis by auto
    next
      fix pre d post
      assume h: "cs = pre @ d # post" "pair_passes e wo d" "b < pair_score wo d"
        "b' = pair_score wo d" "a' = Some (fst d, snd d, pair_score wo d)"
        "\<forall>x \<in> set pre. pair_passes e wo x \<longrightarrow> pair_score wo x < pair_score wo d"
        "\<forall>x \<in> set post. pair_passes e wo x \<longrightarrow> pair_score wo x \<le> pair_score wo d"
      with False have "c # cs = (c # pre) @ d # post \<and> pair_passes e wo d \<and> b < pair_score wo d
           \<and> b' = pair_score wo d \<and> a' = Some (fst d, snd d, pair_score wo d)
           \<and> (\<forall>x \<in> set (c # pre). pair_passes e wo x \<longrightarrow> pair_score wo x < pair_score wo d)
           \<and> (\<forall>x \<in> set post. pair_passes e wo x \<longrightarrow> pair_score wo x \<le> pair_score wo d)"
        by auto
      then show ?thesis by blast
    qed
  qed
qed

lemma find_best_allocation_cases:
  "(find_best_allocation e wo = None
      \<and> (\<forall>c \<in> set (candidates e). pair_passes e wo c \<longrightarrow> pair_score wo c \<le> - 1))
   \<or> (\<exists>pre c post. candidates e = pre @ c # post \<and> pair_passes e wo c \<and> - 1 < pair_score wo c
         \<and> find_best_allocation e wo = Some (fst c, snd c, pair_score wo c)
         \<and> (\<forall>x \<in> set pre. pair_passes e wo x \<longrightarrow> pair_score wo x < pair_score wo c)
         \<and> (\<forall>x \<in> set post. pair_passes e wo x \<longrightarrow> pair_score wo x \<le> pair_score wo c))"
proof -
  obtain b' a' where f: "foldl (search_step e wo) (- 1, None) (candidates e) = (b', a')"
    by (cases "foldl (search_step e wo) (- 1, None) (candidates e)")
  have fb: "find_best_allocation e wo = a'" by (simp add: find_best_allocation_def f)
  from search_fold[OF f] show ?thesis unfolding fb by blast
qed



lemma set_candidates:
  "set (candidates e) =
     {(oper, m). oper \<in> set (operators e) \<and> op_current_status (snd oper) = AVAILABLE
                 \<and> m \<in> set (machines e) \<and> m_current_status (snd m) = IDLE}"
  by (auto simp: candidates_def available_operators_def idle_machines_def)







subsection \<open>Dictionaries\<close>

lemma map_of_dict_modify:
  "map_of (dict_modify k f d) k' = (if k' = k then map_option f (map_of d k) else map_of d k')"
  by (induction d) auto

lemma keys_dict_modify [simp]: "map fst (dict_modify k f d) = map fst d"
  by (induction d) auto

lemma map_of_dict_set: "map_of (dict_set k v d) k' = (if k' = k then Some v else map_of d k')"
  by (induction d) auto

subsection \<open>Allocation commit\<close>

lemma keys_reserve_materials [simp]: "map fst (reserve_materials reqs mats) = map fst mats"
  by (induction reqs arbitrary: mats) auto

lemma map_of_reserve_materials:
  "map_of (reserve_materials reqs mats) k
     = map_option (add_reserved (req_total k reqs)) (map_of mats k)"
proof (induction reqs arbitrary: mats)
  case Nil
  show ?case by (simp add: req_total_def add_reserved_def option.map_ident)
next
  case (Cons r rs)
  show ?case
    by (cases "map_of mats k")
       (auto simp: Cons.IH map_of_dict_modify req_total_def add_reserved_def reserve_def
          add.assoc)
qed

lemma find_best_allocation_Some:
  assumes "find_best_allocation e wo = Some (oper, m, score)"
  shows "(oper, m) \<in> set (candidates e) \<and> pair_passes e wo (oper, m)
         \<and> score = pair_score wo (oper, m)"
  using find_best_allocation_cases[of e wo] assms by auto

lemma find_best_allocation_None_if:
  assumes "\<not> materials_ok e wo"
  shows "find_best_allocation e wo = None"
proof (cases "find_best_allocation e wo")
  case None
  then show ?thesis .
next
  case (Some a)
  obtain oper m score where "a = (oper, m, score)" by (cases a)
  with Some find_best_allocation_Some have "pair_passes e wo (oper, m)" by blast
  with assms show ?thesis by (simp add: pair_passes_def passes_def)
qed

lemma commit_materials_present:
  assumes "find_best_allocation e wo = Some a"
  shows "materials_present e wo"
proof -
  obtain oper m score where "a = (oper, m, score)" by (cases a)
  with assms find_best_allocation_Some have "pair_passes e wo (oper, m)" by blast
  then have "list_all (material_ok e) (required_materials wo)"
    by (simp add: pair_passes_def passes_def materials_ok_def)
  then show ?thesis
    by (auto simp: materials_present_def material_ok_def list_all_iff split: option.splits)
qed

lemma candidate_lookup:
  assumes "((okey, oper), (mkey, m)) \<in> set (candidates e)"
    and "distinct (map fst (operators e))" and "distinct (map fst (machines e))"
  shows "map_of (operators e) okey = Some oper \<and> op_current_status oper = AVAILABLE
       \<and> map_of (machines e) mkey = Some m \<and> m_current_status m = IDLE"
  using assms by (auto simp: set_candidates)

text \<open>
  Claim C3, as stated, has a failed allocation change no status. The source sets the
  work order's status to \<open>BLOCKED\<close> when the search finds no pair: a \<open>PENDING\<close> order
  whose material is short is \<open>BLOCKED\<close> afterwards.
\<close>

theorem allocate_resources_counterexample:
  "\<not> materials_ok ex_short ex_work_order
   \<and> map_option status (map_of (work_orders ex_short) ''WO1'') = Some PENDING
   \<and> map_option status (map_of (work_orders (snd (allocate_resources 7 ex_short ''WO1''))) ''WO1'')
       = Some BLOCKED"
proof -
  have "\<not> materials_ok ex_short ex_work_order"
    by (simp add: materials_ok_def material_ok_def ex_short_def ex_defs)
  moreover have "map_option status (map_of (work_orders ex_short) ''WO1'') = Some PENDING"
    by (simp add: ex_short_def ex_defs)
  moreover have "map_option status
      (map_of (work_orders (snd (allocate_resources 7 ex_short ''WO1''))) ''WO1'') = Some BLOCKED"
    by (simp add: ex_short_def eval_defs ex_defs)
  ultimately show ?thesis by simp
qed

text \<open>
  Claim C3, amended. For a work order of the catalog: if some required material lacks
  sufficient unreserved quantity the search finds no pair; when the search finds no
  pair, \<open>allocate_resources\<close> returns \<open>False\<close>, the materials, operators and machines
  are unchanged, and the only change is that work order's status, set to \<open>BLOCKED\<close>;
  when the search returns a pair, \<open>allocate_resources\<close> returns \<open>True\<close> and the whole
  commit is applied: every material's reservation grows by what the order requires of
  it, the order gets both references, status \<open>IN_PROGRESS\<close> and the start time, the
  operator becomes \<open>ASSIGNED\<close> and the machine \<open>RUNNING\<close>, both pointing at the order,
  the allocation time is recorded, and no other work order, operator or machine
  changes.
\<close>

theorem allocate_resources_all_or_nothing:
  assumes "distinct (map fst (operators e))" and "distinct (map fst (machines e))"
    and "map_of (work_orders e) wid = Some wo"
  shows "(\<not> materials_ok e wo \<longrightarrow> find_best_allocation e wo = None)
    \<and> (find_best_allocation e wo = None \<longrightarrow>
          allocate_resources now e wid
            = (False, e\<lparr>work_orders := dict_modify wid (set_status BLOCKED) (work_orders e)\<rparr>)
          \<and> materials (snd (allocate_resources now e wid)) = materials e
          \<and> operators (snd (allocate_resources now e wid)) = operators e
          \<and> machines (snd (allocate_resources now e wid)) = machines e
          \<and> map_of (work_orders (snd (allocate_resources now e wid))) wid
              = Some (wo\<lparr>status := BLOCKED\<rparr>)
          \<and> (\<forall>k. k \<noteq> wid \<longrightarrow>
                map_of (work_orders (snd (allocate_resources now e wid))) k
                  = map_of (work_orders e) k))
    \<and> (\<forall>okey oper mkey m score.
          find_best_allocation e wo = Some ((okey, oper), (mkey, m), score) \<longrightarrow>
            fst (allocate_resources now e wid)
            \<and> materials_ok e wo
            \<and> (\<forall>k. map_of (materials (snd (allocate_resources now e wid))) k
                   = map_option (add_reserved (req_total k (required_materials wo)))
                       (map_of (materials e) k))
            \<and> map_of (work_orders (snd (allocate_resources now e wid))) wid
                = Some (wo\<lparr>assigned_operator := Some (operator_id oper),
                            assigned_machine := Some (machine_id m),
                            status := IN_PROGRESS, start_time := Some now\<rparr>)
            \<and> map_of (operators e) okey = Some oper
            \<and> map_of (operators (snd (allocate_resources now e wid))) okey
                = Some (oper\<lparr>op_current_status := ASSIGNED, op_current_work_order := Some wid\<rparr>)
            \<and> map_of (machines e) mkey = Some m
            \<and> map_of (machines (snd (allocate_resources now e wid))) mkey
                = Some (m\<lparr>m_current_status := RUNNING, m_current_work_order := Some wid\<rparr>)
            \<and> map_of (last_reallocation_time (snd (allocate_resources now e wid))) wid = Some now
            \<and> (\<forall>k. k \<noteq> wid \<longrightarrow>
                  map_of (work_orders (snd (allocate_resources now e wid))) k
                    = map_of (work_orders e) k)
            \<and> (\<forall>k. k \<noteq> okey \<longrightarrow>
                  map_of (operators (snd (allocate_resources now e wid))) k
                    = map_of (operators e) k)
            \<and> (\<forall>k. k \<noteq> mkey \<longrightarrow>
                  map_of (machines (snd (allocate_resources now e wid))) k
                    = map_of (machines e) k))"
proof (intro conjI impI allI)
  assume "\<not> materials_ok e wo"
  then show "find_best_allocation e wo = None" by (rule find_best_allocation_None_if)
next
  assume n: "find_best_allocation e wo = None"
  show "allocate_resources now e wid
            = (False, e\<lparr>work_orders := dict_modify wid (set_status BLOCKED) (work_orders e)\<rparr>)"
    by (simp add: allocate_resources_def assms(3) n)
  show "materials (snd (allocate_resources now e wid)) = materials e"
    by (simp add: allocate_resources_def assms(3) n)
  show "operators (snd (allocate_resources now e wid)) = operators e"
    by (simp add: allocate_resources_def assms(3) n)
  show "machines (snd (allocate_resources now e wid)) = machines e"
    by (simp add: allocate_resources_def assms(3) n)
  show "map_of (work_orders (snd (allocate_resources now e wid))) wid
              = Some (wo\<lparr>status := BLOCKED\<rparr>)"
    by (simp add: allocate_resources_def assms(3) n map_of_dict_modify set_status_def)
  show "\<And>k. k \<noteq> wid \<Longrightarrow> map_of (work_orders (snd (allocate_resources now e wid))) k
                  = map_of (work_orders e) k"
    by (simp add: allocate_resources_def assms(3) n map_of_dict_modify)
next
  fix okey oper mkey m score
  assume s: "find_best_allocation e wo = Some ((okey, oper), (mkey, m), score)"
  note fb = find_best_allocation_Some[OF s]
  note look = candidate_lookup[OF conjunct1[OF fb] assms(1,2)]
  show "fst (allocate_resources now e wid)" by (simp add: allocate_resources_def assms(3) s)
  show "materials_ok e wo" using fb by (simp add: pair_passes_def passes_def)
  show "map_of (operators e) okey = Some oper" using look by simp
  show "map_of (machines e) mkey = Some m" using look by simp
  show "map_of (materials (snd (allocate_resources now e wid))) k
                   = map_option (add_reserved (req_total k (required_materials wo)))
                       (map_of (materials e) k)" for k
    by (simp add: allocate_resources_def assms(3) s map_of_reserve_materials)
  show "map_of (work_orders (snd (allocate_resources now e wid))) wid
                = Some (wo\<lparr>assigned_operator := Some (operator_id oper),
                            assigned_machine := Some (machine_id m),
                            status := IN_PROGRESS, start_time := Some now\<rparr>)"
    by (simp add: allocate_resources_def assms(3) s map_of_dict_modify assign_work_order_def)
  show "map_of (operators (snd (allocate_resources now e wid))) okey
                = Some (oper\<lparr>op_current_status := ASSIGNED, op_current_work_order := Some wid\<rparr>)"
    using look by (simp add: allocate_resources_def assms(3) s map_of_dict_modify assign_operator_def)
  show "map_of (machines (snd (allocate_resources now e wid))) mkey
                = Some (m\<lparr>m_current_status := RUNNING, m_current_work_order := Some wid\<rparr>)"
    using look by (simp add: allocate_resources_def assms(3) s map_of_dict_modify assign_machine_def)
  show "map_of (last_reallocation_time (snd (allocate_resources now e wid))) wid = Some now"
    by (simp add: allocate_resources_def assms(3) s map_of_dict_set)
  show "\<And>k. k \<noteq> wid \<Longrightarrow> map_of (work_orders (snd (allocate_resources now e wid))) k
                    = map_of (work_orders e) k"
    by (simp add: allocate_resources_def assms(3) s map_of_dict_modify)
  show "\<And>k. k \<noteq> okey \<Longrightarrow> map_of (operators (snd (allocate_resources now e wid))) k
                    = map_of (operators e) k"
    by (simp add: allocate_resources_def assms(3) s map_of_dict_modify)
  show "\<And>k. k \<noteq> mkey \<Longrightarrow> map_of (machines (snd (allocate_resources now e wid))) k
                    = map_of (machines e) k"
    by (simp add: allocate_resources_def assms(3) s map_of_dict_modify)
qed

theorem allocate_resources_all_or_nothing_witness:
  "distinct (map fst (operators ex_engine)) \<and> distinct (map fst (machines ex_engine))
   \<and> map_of (work_orders ex_engine) ''WO1'' = Some ex_work_order
   \<and> find_best_allocation ex_engine ex_work_order
       = Some ((''OP1'', ex_operator), (''M1'', ex_machine), 91 / 100)
   \<and> fst (allocate_resources 7 ex_engine ''WO1'')
   \<and> map_option quantity_reserved
         (map_of (materials (snd (allocate_resources 7 ex_engine ''WO1''))) ''MAT1'') = Some 50
   \<and> map_option status
         (map_of (work_orders (snd (allocate_resources 7 ex_engine ''WO1''))) ''WO1'')
       = Some IN_PROGRESS"
proof -
  have d: "distinct (map fst (operators ex_engine))" "distinct (map fst (machines ex_engine))"
    by (simp_all add: ex_engine_def)
  have w: "map_of (work_orders ex_engine) ''WO1'' = Some ex_work_order"
    by (simp add: ex_engine_def)
  have f: "find_best_allocation ex_engine ex_work_order
       = Some ((''OP1'', ex_operator), (''M1'', ex_machine), 91 / 100)"
    by (simp add: eval_defs ex_defs)
  have m: "map_of (materials ex_engine) ''MAT1'' = Some ex_material" by (simp add: ex_engine_def)
  have t: "req_total ''MAT1'' (required_materials ex_work_order) = 50"
    by (simp add: req_total_def ex_work_order_def)
  note eff = allocate_resources_all_or_nothing[OF d w, of 7, THEN conjunct2, THEN conjunct2,
      rule_format, OF f]
  have "fst (allocate_resources 7 ex_engine ''WO1'')" using eff by (rule conjunct1)
  moreover have "map_option quantity_reserved
         (map_of (materials (snd (allocate_resources 7 ex_engine ''WO1''))) ''MAT1'') = Some 50"
    using eff[THEN conjunct2, THEN conjunct2, THEN conjunct1, rule_format, of "''MAT1''"]
    by (simp add: m t add_reserved_def ex_material_def)
  moreover have "map_option status
         (map_of (work_orders (snd (allocate_resources 7 ex_engine ''WO1''))) ''WO1'')
       = Some IN_PROGRESS"
    using eff[THEN conjunct2, THEN conjunct2, THEN conjunct2, THEN conjunct1]
    by simp
  ultimately show ?thesis using d w f by simp
qed

subsection \<open>What the commit and the bulk pass leave unchanged\<close>

lemma consume_consume: "consume q (consume q' mat) = consume (q' + q) mat"
  by (simp add: consume_def algebra_simps)

lemma release_materials_present:
  assumes "list_all (\<lambda>r. map_of mats (req_material_id r) \<noteq> None) reqs"
  shows "\<exists>mats'. release_materials reqs mats = Inr mats' \<and> map fst mats' = map fst mats
           \<and> (\<forall>k. map_of mats' k = map_option (consume (req_total k reqs)) (map_of mats k))"
  using assms
proof (induction reqs arbitrary: mats)
  case Nil
  show ?case by (simp add: req_total_def consume_def option.map_ident)
next
  case (Cons r rs)
  let ?mats1 = "dict_modify (req_material_id r) (consume (req_quantity r)) mats"
  from Cons.prems obtain mat where mat: "map_of mats (req_material_id r) = Some mat" by auto
  from Cons.prems have "list_all (\<lambda>r. map_of ?mats1 (req_material_id r) \<noteq> None) rs"
    by (auto simp: list_all_iff map_of_dict_modify)
  from Cons.IH[OF this] obtain mats' where
    m: "release_materials rs ?mats1 = Inr mats'" "map fst mats' = map fst ?mats1"
       "\<forall>k. map_of mats' k = map_option (consume (req_total k rs)) (map_of ?mats1 k)"
    by blast
  have "map_of mats' k = map_option (consume (req_total k (r # rs))) (map_of mats k)" for k
    using m(3) by (cases "map_of mats k")
      (auto simp: map_of_dict_modify req_total_def consume_consume)
  with m(1,2) mat show ?case by simp
qed

lemma release_materials_missing:
  assumes "\<not> list_all (\<lambda>r. map_of mats (req_material_id r) \<noteq> None) reqs"
  shows "\<exists>k mats'. release_materials reqs mats = Inl (KeyError k, mats') \<and> map_of mats k = None
           \<and> k \<in> req_material_id ` set reqs"
  using assms
proof (induction reqs arbitrary: mats)
  case Nil
  then show ?case by simp
next
  case (Cons r rs)
  show ?case
  proof (cases "map_of mats (req_material_id r)")
    case None
    then show ?thesis by simp
  next
    case (Some mat)
    let ?mats1 = "dict_modify (req_material_id r) (consume (req_quantity r)) mats"
    from Cons.prems Some obtain ra where ra: "ra \<in> set rs" "map_of mats (req_material_id ra) = None"
      by (auto simp: list_all_iff)
    with Some have "req_material_id ra \<noteq> req_material_id r" by auto
    with ra have "\<not> list_all (\<lambda>r. map_of ?mats1 (req_material_id r) \<noteq> None) rs"
      by (auto simp: list_all_iff map_of_dict_modify)
    from Cons.IH[OF this] obtain k mats' where
      "release_materials rs ?mats1 = Inl (KeyError k, mats')" "map_of ?mats1 k = None"
      "k \<in> req_material_id ` set rs"
      by blast
    then show ?thesis using Some by (auto simp: map_of_dict_modify split: if_splits)
  qed
qed

lemma available_add_reserved [simp]: "quantity_available (add_reserved q mat) = quantity_available mat"
  by (simp add: add_reserved_def)

lemma allocate_resources_keys:
  "map fst (operators (snd (allocate_resources now e wid))) = map fst (operators e)"
  "map fst (machines (snd (allocate_resources now e wid))) = map fst (machines e)"
  "map fst (materials (snd (allocate_resources now e wid))) = map fst (materials e)"
  "map fst (work_orders (snd (allocate_resources now e wid))) = map fst (work_orders e)"
  by (simp_all add: allocate_resources_def split: option.splits prod.splits)

lemma allocate_resources_available:
  "available_of (snd (allocate_resources now e wid)) k = available_of e k"
  by (simp add: allocate_resources_def available_of_def map_of_reserve_materials
      option.map_comp comp_def split: option.splits prod.splits)

lemma allocate_resources_other_order:
  "k \<noteq> wid \<Longrightarrow> map_of (work_orders (snd (allocate_resources now e wid))) k = map_of (work_orders e) k"
  by (simp add: allocate_resources_def map_of_dict_modify split: option.splits prod.splits)

lemma allocate_each_preserves:
  assumes "\<And>e w. w \<in> set ws \<Longrightarrow> P e \<Longrightarrow> P (snd (allocate_resources now e (work_order_id w)))"
    and "P e"
  shows "P (snd (allocate_each now ws (results, e)))"
  using assms
proof (induction ws arbitrary: results e)
  case Nil
  then show ?case by simp
next
  case (Cons w ws)
  obtain ok e1 where a: "allocate_resources now e (work_order_id w) = (ok, e1)"
    by (cases "allocate_resources now e (work_order_id w)")
  have "P e1" using Cons.prems(1)[of w e] Cons.prems(2) a by simp
  then have "\<And>r. P (snd (allocate_each now ws (r, e1)))"
    using Cons.IH Cons.prems(1) by simp
  then show ?case using a by (cases ok) simp_all
qed

lemma set_prioritize:
  "set (prioritize_work_orders e) = {wo \<in> snd ` set (work_orders e). status wo = PENDING}"
  by (cases "pending_orders e = []")
     (auto simp: prioritize_work_orders_def pending_orders_def filter_empty_conv)

lemma process_allocations_preserves:
  assumes "\<And>e' w. w \<in> set (prioritize_work_orders e) \<Longrightarrow> P e'
             \<Longrightarrow> P (snd (allocate_resources now e' (work_order_id w)))"
    and "P e"
  shows "P (snd (process_allocations now e))"
  unfolding process_allocations_def Let_def
  by (rule allocate_each_preserves) (use assms in auto)

lemma process_allocations_available:
  "available_of (snd (process_allocations now e)) k = available_of e k"
  by (rule process_allocations_preserves[where P = "\<lambda>e'. available_of e' k = available_of e k"])
     (simp_all add: allocate_resources_available)

lemma process_allocations_machine_keys:
  "map fst (machines (snd (process_allocations now e))) = map fst (machines e)"
  by (rule process_allocations_preserves[where P = "\<lambda>e'. map fst (machines e') = map fst (machines e)"])
     (simp_all add: allocate_resources_keys)

lemma process_allocations_material_keys:
  "map fst (materials (snd (process_allocations now e))) = map fst (materials e)"
  by (rule process_allocations_preserves[where P = "\<lambda>e'. map fst (materials e') = map fst (materials e)"])
     (simp_all add: allocate_resources_keys)

lemma pending_id_other:
  assumes "work_order_keys_ok e" and "map_of (work_orders e) wid = Some wo" and "status wo \<noteq> PENDING"
    and "w \<in> set (prioritize_work_orders e)"
  shows "work_order_id w \<noteq> wid"
proof
  assume eq: "work_order_id w = wid"
  from assms(4) obtain k where k: "(k, w) \<in> set (work_orders e)" and p: "status w = PENDING"
    by (auto simp: set_prioritize)
  with assms(1) have "work_order_id w = k" by (auto simp: work_order_keys_ok_def list_all_iff)
  with eq k assms(1) have "map_of (work_orders e) wid = Some w"
    by (simp add: work_order_keys_ok_def)
  with assms(2,3) p show False by simp
qed

lemma process_allocations_other_order:
  assumes "work_order_keys_ok e" and "map_of (work_orders e) wid = Some wo" and "status wo \<noteq> PENDING"
  shows "map_of (work_orders (snd (process_allocations now e))) wid = Some wo"
  by (rule process_allocations_preserves[where P = "\<lambda>e'. map_of (work_orders e') wid = Some wo"])
     (use assms pending_id_other[OF assms, THEN not_sym] in
        \<open>simp_all add: allocate_resources_other_order\<close>)

lemma dict_modify_absent: "k \<notin> fst ` set d \<Longrightarrow> dict_modify k f d = d"
  by (induction d) auto

lemma map_modify_absent:
  "k \<notin> fst ` set d \<Longrightarrow> map (\<lambda>(k', v). if k' = k then (k', f v) else (k', v)) d = d"
  by (induction d) auto

lemma set_dict_modify:
  "(k', v) \<in> set (dict_modify k f d) \<Longrightarrow>
     (k', v) \<in> set d \<or> (\<exists>v0. (k', v0) \<in> set d \<and> v = f v0)"
proof (induction d)
  case Nil
  then show ?case by simp
next
  case (Cons p d)
  obtain a b where p: "p = (a, b)" by (cases p)
  show ?case
  proof (cases "a = k")
    case True
    with Cons.prems p show ?thesis by fastforce
  next
    case False
    with Cons.prems p have "(k', v) = (a, b) \<or> (k', v) \<in> set (dict_modify k f d)" by simp
    then show ?thesis using Cons.IH p by fastforce
  qed
qed

lemma dict_modify_map:
  "distinct (map fst d) \<Longrightarrow>
     dict_modify k f d = map (\<lambda>(k', v). if k' = k then (k', f v) else (k', v)) d"
proof (induction d)
  case Nil
  show ?case by simp
next
  case (Cons p d)
  obtain k' v where p: "p = (k', v)" by (cases p)
  show ?case
  proof (cases "k' = k")
    case True
    with Cons.prems p have "k \<notin> fst ` set d" by auto
    then have "map (\<lambda>(k', v). if k' = k then (k', f v) else (k', v)) d = d"
      by (rule map_modify_absent)
    with True p show ?thesis by simp
  next
    case False
    with Cons p show ?thesis by simp
  qed
qed

lemma keys_ok_dict_modify:
  assumes "work_order_keys_ok e" and "\<And>wo. work_order_id (f wo) = work_order_id wo"
  shows "work_order_keys_ok (e\<lparr>work_orders := dict_modify k f (work_orders e)\<rparr>)"
  using assms
  by (auto simp: work_order_keys_ok_def list_all_iff dest!: set_dict_modify)

lemma keys_ok_operators_update [simp]:
  "work_order_keys_ok (e\<lparr>operators := ops\<rparr>) = work_order_keys_ok e"
  by (simp add: work_order_keys_ok_def)

lemma keys_ok_materials_update [simp]:
  "work_order_keys_ok (e\<lparr>materials := mats\<rparr>) = work_order_keys_ok e"
  by (simp add: work_order_keys_ok_def)

lemma pending_count_operators_update [simp]:
  "pending_count (e\<lparr>operators := ops\<rparr>) = pending_count e"
  by (simp add: pending_count_def)

lemma handle_operator_available_available:
  "available_of (handle_operator_available now e oid) k = available_of e k"
proof -
  have "available_of (e\<lparr>operators := ops\<rparr>) k = available_of e k" for ops
    by (simp add: available_of_def)
  then show ?thesis
    unfolding handle_operator_available_def Let_def
    by (cases "map_of (operators e) oid") (simp_all add: process_allocations_available)
qed

lemma handle_operator_available_machine_keys:
  "map fst (machines (handle_operator_available now e oid)) = map fst (machines e)"
  unfolding handle_operator_available_def Let_def
  by (cases "map_of (operators e) oid") (simp_all add: process_allocations_machine_keys)

lemma handle_operator_available_other_order:
  assumes "work_order_keys_ok e" and "map_of (work_orders e) wid = Some wo" and "status wo \<noteq> PENDING"
  shows "map_of (work_orders (handle_operator_available now e oid)) wid = Some wo"
proof -
  have "map_of (work_orders (snd (process_allocations now (e\<lparr>operators := ops\<rparr>)))) wid = Some wo"
    for ops
    by (rule process_allocations_other_order) (use assms in simp_all)
  then show ?thesis
    using assms(2) by (simp add: handle_operator_available_def Let_def split: option.splits)
qed

lemma handle_operator_available_quiet:
  assumes "pending_count e = 0"
  shows "materials (handle_operator_available now e oid) = materials e"
  using assms by (simp add: handle_operator_available_def Let_def split: option.splits)

lemma map_of_present_keys: "(map_of d k \<noteq> None) = (k \<in> set (map fst d))"
  by (simp add: map_of_eq_None_iff)

lemma handle_operator_available_material_keys:
  "map fst (materials (handle_operator_available now e oid)) = map fst (materials e)"
  unfolding handle_operator_available_def Let_def
  by (cases "map_of (operators e) oid") (simp_all add: process_allocations_material_keys)

lemma no_other_pending_count:
  assumes "distinct (map fst (work_orders e))" and "no_other_pending e wid"
  shows "pending_count (e\<lparr>work_orders := dict_modify wid (complete_work_order now) (work_orders e),
                          materials := mats\<rparr>) = 0"
  using assms
  by (auto simp: pending_count_def no_other_pending_def list_all_iff filter_empty_conv
      dict_modify_map complete_work_order_def split: if_splits)

lemma completion_steps:
  assumes ok: "work_order_keys_ok e" and wo: "map_of (work_orders e) wid = Some wo"
    and mats: "materials_present e wo" and mach: "machine_present e wo"
  shows "\<exists>mats' e3.
      release_materials (required_materials wo) (materials e) = Inr mats'
      \<and> (\<forall>k. map_of mats' k
             = map_option (consume (req_total k (required_materials wo))) (map_of (materials e) k))
      \<and> e3 = (case nonempty (assigned_operator wo) of
                 None \<Rightarrow> e\<lparr>work_orders := dict_modify wid (complete_work_order now) (work_orders e),
                            materials := mats'\<rparr>
               | Some oid \<Rightarrow>
                   handle_operator_available now
                     (e\<lparr>work_orders := dict_modify wid (complete_work_order now) (work_orders e),
                        materials := mats'\<rparr>) oid)
      \<and> map_of (work_orders e3) wid = Some (complete_work_order now wo)
      \<and> map fst (materials e3) = map fst (materials e)
      \<and> (\<forall>k. available_of e3 k
             = map_option (\<lambda>a. a - req_total k (required_materials wo)) (available_of e k))
      \<and> (no_other_pending e wid \<or> nonempty (assigned_operator wo) = None \<longrightarrow> materials e3 = mats')
      \<and> handle_work_order_completion now e wid
          = Inr (case nonempty (assigned_machine wo) of
                   None \<Rightarrow> e3
                 | Some mid \<Rightarrow> e3\<lparr>machines := dict_modify mid free_machine (machines e3)\<rparr>)"
proof -
  let ?e1 = "e\<lparr>work_orders := dict_modify wid (complete_work_order now) (work_orders e)\<rparr>"
  from release_materials_present[OF mats[unfolded materials_present_def]]
  obtain mats' where r: "release_materials (required_materials wo) (materials e) = Inr mats'"
    and mk': "map fst mats' = map fst (materials e)"
    and m: "\<forall>k. map_of mats' k
             = map_option (consume (req_total k (required_materials wo))) (map_of (materials e) k)"
    by blast
  let ?e2 = "?e1\<lparr>materials := mats'\<rparr>"
  let ?e3 = "case nonempty (assigned_operator wo) of None \<Rightarrow> ?e2
             | Some oid \<Rightarrow> handle_operator_available now ?e2 oid"
  have ok2: "work_order_keys_ok ?e2"
    using keys_ok_dict_modify[OF ok, of "complete_work_order now" wid]
    by (simp add: complete_work_order_def)
  have wo2: "map_of (work_orders ?e2) wid = Some (complete_work_order now wo)"
    by (simp add: map_of_dict_modify wo)
  have st: "status (complete_work_order now wo) \<noteq> PENDING" by (simp add: complete_work_order_def)
  have wo3: "map_of (work_orders ?e3) wid = Some (complete_work_order now wo)"
    using handle_operator_available_other_order[OF ok2 wo2 st] wo2
    by (simp split: option.splits)
  have f1: "wo_field assigned_operator ?e2 wid = assigned_operator wo"
    by (simp add: wo_field_def wo2[simplified] complete_work_order_def)
  have f2: "wo_field assigned_machine ?e3 wid = assigned_machine wo"
    using wo3 by (simp add: wo_field_def complete_work_order_def)
  have mk: "map fst (machines ?e3) = map fst (machines e)"
    by (simp add: handle_operator_available_machine_keys split: option.splits)
  have matk: "map fst (materials ?e3) = map fst (materials e)"
    by (simp add: handle_operator_available_material_keys mk' split: option.splits)
  have av2: "available_of ?e2 k
             = map_option (\<lambda>a. a - req_total k (required_materials wo)) (available_of e k)" for k
    using m by (simp add: available_of_def option.map_comp comp_def consume_def)
  have av3: "available_of ?e3 k
             = map_option (\<lambda>a. a - req_total k (required_materials wo)) (available_of e k)" for k
    using av2[of k] by (simp add: handle_operator_available_available split: option.splits)
  have quiet: "materials ?e3 = mats'"
    if "no_other_pending e wid \<or> nonempty (assigned_operator wo) = None"
  proof (cases "nonempty (assigned_operator wo)")
    case None
    then show ?thesis by simp
  next
    case (Some oid)
    with that have "no_other_pending e wid" by simp
    with ok have "pending_count ?e2 = 0"
      by (simp add: no_other_pending_count work_order_keys_ok_def)
    from handle_operator_available_quiet[OF this] Some show ?thesis by simp
  qed
  have free: "free_completed_resources now ?e2 wid
          = Inr (case nonempty (assigned_machine wo) of
                   None \<Rightarrow> ?e3
                 | Some mid \<Rightarrow> ?e3\<lparr>machines := dict_modify mid free_machine (machines ?e3)\<rparr>)"
  proof (cases "nonempty (assigned_machine wo)")
    case None
    then show ?thesis unfolding free_completed_resources_def Let_def f1
      using f2 by (simp add: f1 split: option.splits)
  next
    case (Some mid)
    with mach have "map_of (machines e) mid \<noteq> None" by (simp add: machine_present_def)
    then have "map_of (machines ?e3) mid \<noteq> None"
      unfolding map_of_present_keys mk .
    then obtain m3 where "map_of (machines ?e3) mid = Some m3" by blast
    with Some f2 show ?thesis
      unfolding free_completed_resources_def Let_def f1
      by (simp add: release_machine_def split: option.splits)
  qed
  have "handle_work_order_completion now e wid = free_completed_resources now ?e2 wid"
    by (simp add: handle_work_order_completion_def wo r Let_def)
  with free r m wo3 matk av3 quiet show ?thesis
    by (intro exI[of _ mats'] exI[of _ ?e3]) simp
qed

subsection \<open>Work-order completion\<close>

lemma total_available_keys:
  assumes "distinct (map fst (materials e))"
  shows "total_available e = sum_list (map (\<lambda>k. default_zero (available_of e k)) (map fst (materials e)))"
proof -
  have "\<And>k mat. (k, mat) \<in> set (materials e) \<Longrightarrow> map_of (materials e) k = Some mat"
    using assms by simp
  then have eq: "map (\<lambda>(k, mat). quantity_available mat) (materials e)
      = map (\<lambda>p. default_zero (available_of e (fst p))) (materials e)"
    by (intro map_cong) (auto simp: available_of_def default_zero_def)
  show ?thesis unfolding total_available_def eq by (simp add: comp_def)
qed

lemma sum_list_indicator_absent:
  fixes q :: real
  shows "a \<notin> set ks \<Longrightarrow> sum_list (map (\<lambda>k. if a = k then q else 0) ks) = 0"
  by (induction ks) auto

lemma sum_list_indicator:
  fixes q :: real
  assumes "distinct ks" and "a \<in> set ks"
  shows "sum_list (map (\<lambda>k. if a = k then q else 0) ks) = q"
  using assms by (induction ks) (auto simp: sum_list_indicator_absent)

lemma sum_req_total:
  assumes "distinct ks" and "req_material_id ` set reqs \<subseteq> set ks"
  shows "sum_list (map (\<lambda>k. req_total k reqs) ks) = sum_list (map req_quantity reqs)"
  using assms(2)
proof (induction reqs)
  case Nil
  show ?case by (simp add: req_total_def)
next
  case (Cons r rs)
  have "req_total k (r # rs) = (if req_material_id r = k then req_quantity r else 0) + req_total k rs"
    for k by (simp add: req_total_def)
  then have "sum_list (map (\<lambda>k. req_total k (r # rs)) ks)
      = sum_list (map (\<lambda>k. if req_material_id r = k then req_quantity r else 0) ks)
        + sum_list (map (\<lambda>k. req_total k rs) ks)"
    by (simp add: sum_list_addf)
  also have "\<dots> = req_quantity r + sum_list (map req_quantity rs)"
    using Cons sum_list_indicator[OF assms(1), of "req_material_id r" "req_quantity r"] by simp
  finally show ?case by simp
qed

lemma total_available_drop:
  assumes d: "distinct (map fst (materials e))"
    and keys: "map fst (materials e') = map fst (materials e)"
    and av: "\<And>k. available_of e' k = map_option (\<lambda>a. a - req_total k reqs) (available_of e k)"
    and pres: "list_all (\<lambda>r. map_of (materials e) (req_material_id r) \<noteq> None) reqs"
  shows "total_available e' = total_available e - sum_list (map req_quantity reqs)"
proof -
  let ?ks = "map fst (materials e)"
  have d': "distinct (map fst (materials e'))" using d keys by simp
  have each: "default_zero (available_of e' k) = default_zero (available_of e k) - req_total k reqs"
    if "k \<in> set ?ks" for k
  proof -
    from that have "map_of (materials e) k \<noteq> None" by (simp add: map_of_eq_None_iff)
    then obtain mat where "map_of (materials e) k = Some mat" by blast
    then have a: "available_of e k = Some (quantity_available mat)"
      by (simp add: available_of_def)
    with av[of k] have "available_of e' k = Some (quantity_available mat - req_total k reqs)"
      by simp
    with a show ?thesis by (simp add: default_zero_def)
  qed
  have 1: "total_available e' = sum_list (map (\<lambda>k. default_zero (available_of e' k)) ?ks)"
    using total_available_keys[OF d'] keys by simp
  have 2: "sum_list (map (\<lambda>k. default_zero (available_of e' k)) ?ks)
      = sum_list (map (\<lambda>k. default_zero (available_of e k) - req_total k reqs) ?ks)"
    using each by (intro arg_cong[where f = sum_list] map_cong) auto
  have 3: "sum_list (map (\<lambda>k. default_zero (available_of e k) - req_total k reqs) ?ks)
      = sum_list (map (\<lambda>k. default_zero (available_of e k)) ?ks)
        - sum_list (map (\<lambda>k. req_total k reqs) ?ks)"
    by (rule sum_list_subtractf)
  have 4: "sum_list (map (\<lambda>k. default_zero (available_of e k)) ?ks) = total_available e"
    by (rule total_available_keys[OF d, symmetric])
  have 5: "sum_list (map (\<lambda>k. req_total k reqs) ?ks) = sum_list (map req_quantity reqs)"
    using pres by (intro sum_req_total[OF d]) (auto simp: list_all_iff map_of_eq_None_iff)
  show ?thesis by (simp only: 1 2 3 4 5)
qed

lemma reserve_then_release:
  "\<exists>mats'. release_materials reqs (reserve_materials reqs mats) = Inr mats'
      \<and> (\<forall>k. map_of mats' k
             = map_option (consume (req_total k reqs) \<circ> add_reserved (req_total k reqs)) (map_of mats k))"
  if "list_all (\<lambda>r. map_of mats (req_material_id r) \<noteq> None) reqs"
proof -
  from that have "list_all (\<lambda>r. map_of (reserve_materials reqs mats) (req_material_id r) \<noteq> None) reqs"
    by (simp add: list_all_iff map_of_reserve_materials)
  from release_materials_present[OF this] show ?thesis
    by (auto simp: map_of_reserve_materials option.map_comp)
qed

lemma consume_add_reserved:
  "quantity_reserved (consume q (add_reserved q mat)) = quantity_reserved mat"
  "quantity_available (consume q (add_reserved q mat)) = quantity_available mat - q"
  by (simp_all add: consume_def add_reserved_def)


lemma ex_blocked_reached: "allocate_resources 7 ex_short ''WO1'' = (False, ex_blocked)"
  by (simp add: ex_blocked_def ex_short_def eval_defs ex_defs)

text \<open>
  Claim C7, as stated, has the handler lower the reserved quantity by the requirement.
  The handler frees the operator through \<open>handle_operator_available\<close>, whose bulk
  pass reserves material for pending orders: with a second, pending order that needs
  30 units, completing the first order (50 units reserved) leaves 30 reserved, a drop
  of 20.
\<close>

theorem handle_work_order_completion_counterexample:
  "allocate_resources 7 ex_two ''WO1'' = (True, ex_two_running)
   \<and> reserved_of ex_two_running ''MAT1'' = Some 50
   \<and> req_total ''MAT1'' (required_materials ex_work_order) = 50
   \<and> raised (handle_work_order_completion 9 ex_two_running ''WO1'') = None
   \<and> reserved_of (outcome_state (handle_work_order_completion 9 ex_two_running ''WO1'')) ''MAT1''
       = Some 30
   \<and> available_of (outcome_state (handle_work_order_completion 9 ex_two_running ''WO1'')) ''MAT1''
       = Some 950"
proof -
  have h: "handle_work_order_completion 9 ex_two_running ''WO1''
    = Inr (ex_two_running\<lparr>
        operators := [(''OP1'', ex_operator\<lparr>op_current_status := ASSIGNED,
                                         op_current_work_order := Some ''WO2''\<rparr>)],
        machines := [(''M1'', ex_machine),
                     (''M2'', ex_machine\<lparr>machine_id := ''M2'', m_current_status := RUNNING,
                                      m_current_work_order := Some ''WO2''\<rparr>)],
        materials := [(''MAT1'', ex_material\<lparr>quantity_reserved := 30, quantity_available := 950\<rparr>)],
        work_orders := [(''WO1'', ex_work_order\<lparr>assigned_operator := Some ''OP1'',
                                             assigned_machine := Some ''M1'',
                                             status := COMPLETED, start_time := Some 7,
                                             completion_time := Some 9, progress := 100\<rparr>),
                        (''WO2'', ex_second_order\<lparr>assigned_operator := Some ''OP1'',
                                             assigned_machine := Some ''M2'',
                                             status := IN_PROGRESS, start_time := Some 9\<rparr>)],
        last_reallocation_time := [(''WO1'', 7), (''WO2'', 9)]\<rparr>)"
    by (simp add: ex_two_running_def ex_running_def ex_second_order_def eval_defs ex_defs)
  have r: "allocate_resources 7 ex_two ''WO1'' = (True, ex_two_running)"
    by (simp add: ex_two_def ex_two_running_def ex_running_def ex_second_order_def eval_defs
        ex_defs)
  show ?thesis
    unfolding h r
    by (simp add: raised_def outcome_state_def reserved_of_def available_of_def req_total_def
        ex_two_running_def ex_running_def ex_defs)
qed

text \<open>
  Claim C7, amended. For a work order of a well-formed catalog whose required
  materials and assigned machine are catalogued: the release loop subtracts from each
  material's reserved and available quantity what the order requires of it, so that a
  reservation made by the commit is netted to zero and the material is consumed; the
  handler returns, and in its final state every material's available quantity has
  dropped by exactly that amount, the total by the sum of the requirement quantities;
  the reserved quantity has dropped by the same amount when no other work order is
  pending, so that the bulk pass reserves nothing.
\<close>

theorem handle_work_order_completion_consumes:
  assumes "work_order_keys_ok e" and "distinct (map fst (materials e))"
    and "map_of (work_orders e) wid = Some wo"
    and "materials_present e wo" and "machine_present e wo"
  shows "(\<exists>mats'. release_materials (required_materials wo) (materials e) = Inr mats'
            \<and> (\<forall>k. map_of mats' k
                   = map_option (consume (req_total k (required_materials wo)))
                       (map_of (materials e) k)))
       \<and> (\<exists>mats'. release_materials (required_materials wo)
                     (reserve_materials (required_materials wo) (materials e)) = Inr mats'
            \<and> (\<forall>k. map_option quantity_reserved (map_of mats' k) = reserved_of e k
                   \<and> map_option quantity_available (map_of mats' k)
                       = map_option (\<lambda>a. a - req_total k (required_materials wo)) (available_of e k)))
       \<and> (\<exists>e'. handle_work_order_completion now e wid = Inr e'
            \<and> (\<forall>k. available_of e' k
                   = map_option (\<lambda>a. a - req_total k (required_materials wo)) (available_of e k))
            \<and> total_available e'
                = total_available e - sum_list (map req_quantity (required_materials wo))
            \<and> (no_other_pending e wid \<longrightarrow>
                  (\<forall>k. reserved_of e' k
                     = map_option (\<lambda>r. r - req_total k (required_materials wo)) (reserved_of e k))))"
proof (intro conjI)
  from completion_steps[OF assms(1,3,4,5), of now]
  obtain mats' e3 where
    r: "release_materials (required_materials wo) (materials e) = Inr mats'"
    and m: "\<forall>k. map_of mats' k
             = map_option (consume (req_total k (required_materials wo))) (map_of (materials e) k)"
    and e3: "e3 = (case nonempty (assigned_operator wo) of
                 None \<Rightarrow> e\<lparr>work_orders := dict_modify wid (complete_work_order now) (work_orders e),
                            materials := mats'\<rparr>
               | Some oid \<Rightarrow>
                   handle_operator_available now
                     (e\<lparr>work_orders := dict_modify wid (complete_work_order now) (work_orders e),
                        materials := mats'\<rparr>) oid)"
    and w3: "map_of (work_orders e3) wid = Some (complete_work_order now wo)"
    and keys: "map fst (materials e3) = map fst (materials e)"
    and av: "\<forall>k. available_of e3 k
             = map_option (\<lambda>a. a - req_total k (required_materials wo)) (available_of e k)"
    and quiet: "no_other_pending e wid \<or> nonempty (assigned_operator wo) = None \<longrightarrow> materials e3 = mats'"
    and h: "handle_work_order_completion now e wid
          = Inr (case nonempty (assigned_machine wo) of
                   None \<Rightarrow> e3
                 | Some mid \<Rightarrow> e3\<lparr>machines := dict_modify mid free_machine (machines e3)\<rparr>)"
    by (elim exE conjE)
  let ?e' = "case nonempty (assigned_machine wo) of
                   None \<Rightarrow> e3
                 | Some mid \<Rightarrow> e3\<lparr>machines := dict_modify mid free_machine (machines e3)\<rparr>"
  have me: "materials ?e' = materials e3" by (simp split: option.splits)
  from r m show "\<exists>mats'. release_materials (required_materials wo) (materials e) = Inr mats'
            \<and> (\<forall>k. map_of mats' k
                   = map_option (consume (req_total k (required_materials wo)))
                       (map_of (materials e) k))"
    by blast
  have av': "available_of ?e' k
      = map_option (\<lambda>a. a - req_total k (required_materials wo)) (available_of e k)" for k
    using av me by (simp add: available_of_def)
  have tot: "total_available ?e'
                = total_available e - sum_list (map req_quantity (required_materials wo))"
    by (rule total_available_drop[OF assms(2) _ av' assms(4)[unfolded materials_present_def]])
       (simp add: me keys)
  have res: "reserved_of ?e' k
                     = map_option (\<lambda>r. r - req_total k (required_materials wo)) (reserved_of e k)"
    if "no_other_pending e wid" for k
    using that quiet m me by (simp add: reserved_of_def option.map_comp comp_def consume_def)
  from h av' tot res
  show "\<exists>e'. handle_work_order_completion now e wid = Inr e'
            \<and> (\<forall>k. available_of e' k
                   = map_option (\<lambda>a. a - req_total k (required_materials wo)) (available_of e k))
            \<and> total_available e'
                = total_available e - sum_list (map req_quantity (required_materials wo))
            \<and> (no_other_pending e wid \<longrightarrow>
                  (\<forall>k. reserved_of e' k
                     = map_option (\<lambda>r. r - req_total k (required_materials wo)) (reserved_of e k)))"
    by (intro exI[of _ ?e']) simp
next
  from reserve_then_release[OF assms(4)[unfolded materials_present_def]]
  obtain mats' where
    "release_materials (required_materials wo)
       (reserve_materials (required_materials wo) (materials e)) = Inr mats'"
    "\<forall>k. map_of mats' k
        = map_option (consume (req_total k (required_materials wo))
                      \<circ> add_reserved (req_total k (required_materials wo))) (map_of (materials e) k)"
    by blast
  then show "\<exists>mats'. release_materials (required_materials wo)
                     (reserve_materials (required_materials wo) (materials e)) = Inr mats'
            \<and> (\<forall>k. map_option quantity_reserved (map_of mats' k) = reserved_of e k
                   \<and> map_option quantity_available (map_of mats' k)
                       = map_option (\<lambda>a. a - req_total k (required_materials wo)) (available_of e k))"
    by (intro exI[of _ mats'])
       (simp add: reserved_of_def available_of_def option.map_comp comp_def consume_add_reserved)
qed

theorem handle_work_order_completion_consumes_witness:
  "work_order_keys_ok ex_running \<and> distinct (map fst (materials ex_running))
   \<and> map_of (work_orders ex_running) ''WO1'' = Some ex_running_order
   \<and> materials_present ex_running ex_running_order
   \<and> machine_present ex_running ex_running_order
   \<and> no_other_pending ex_running ''WO1''
   \<and> raised (handle_work_order_completion 9 ex_running ''WO1'') = None
   \<and> available_of (outcome_state (handle_work_order_completion 9 ex_running ''WO1'')) ''MAT1''
       = Some 950
   \<and> reserved_of (outcome_state (handle_work_order_completion 9 ex_running ''WO1'')) ''MAT1''
       = Some 0
   \<and> total_available (outcome_state (handle_work_order_completion 9 ex_running ''WO1'')) = 950"
proof -
  have h1: "work_order_keys_ok ex_running"
    by (simp add: work_order_keys_ok_def ex_running_def ex_defs)
  have h2: "distinct (map fst (materials ex_running))" by (simp add: ex_running_def)
  have h3: "map_of (work_orders ex_running) ''WO1'' = Some ex_running_order"
    by (simp add: ex_running_def ex_running_order_def)
  have h4: "materials_present ex_running ex_running_order"
    by (simp add: materials_present_def ex_running_def ex_running_order_def ex_defs)
  have h5: "machine_present ex_running ex_running_order"
    by (simp add: machine_present_def nonempty_def truthy_def ex_running_def ex_running_order_def)
  have h6: "no_other_pending ex_running ''WO1''"
    by (simp add: no_other_pending_def ex_running_def)
  have t: "req_total ''MAT1'' (required_materials ex_running_order) = 50"
    "sum_list (map req_quantity (required_materials ex_running_order)) = 50"
    by (simp_all add: req_total_def ex_running_order_def ex_defs)
  have a: "available_of ex_running ''MAT1'' = Some 1000" "reserved_of ex_running ''MAT1'' = Some 50"
    "total_available ex_running = 1000"
    by (simp_all add: available_of_def reserved_of_def total_available_def ex_running_def ex_defs)
  from handle_work_order_completion_consumes[OF h1 h2 h3 h4 h5, of 9, THEN conjunct2, THEN conjunct2]
  obtain e' where e': "handle_work_order_completion 9 ex_running ''WO1'' = Inr e'"
    and av: "\<forall>k. available_of e' k
              = map_option (\<lambda>a. a - req_total k (required_materials ex_running_order))
                  (available_of ex_running k)"
    and tot: "total_available e'
              = total_available ex_running - sum_list (map req_quantity (required_materials ex_running_order))"
    and res: "no_other_pending ex_running ''WO1'' \<longrightarrow>
               (\<forall>k. reserved_of e' k
                  = map_option (\<lambda>r. r - req_total k (required_materials ex_running_order))
                      (reserved_of ex_running k))"
    by (elim exE conjE)
  have "available_of e' ''MAT1'' = Some 950" using av[rule_format, of "''MAT1''"] by (simp add: t a)
  moreover have "reserved_of e' ''MAT1'' = Some 0"
    using res h6 by (simp add: t a)
  moreover have "total_available e' = 950" using tot by (simp add: t a)
  ultimately show ?thesis
    using h1 h2 h3 h4 h5 h6 by (simp add: e' raised_def outcome_state_def)
qed




subsection \<open>The material invariant\<close>

text \<open>
  Claim C1 at two inputs. Completing a \<open>PENDING\<close> work order that holds no reservation
  drives the reserved quantity of its material from 0 to -50. Allocating a work order
  that lists one material twice, 600 units each of 1000 available, passes the
  constraint check for each requirement and reserves 1200.
\<close>

theorem reservation_invariant_broken:
  "reservation_invariant ex_engine
   \<and> raised (process_events 9 [WorkOrderComplete ''WO1''] ex_engine) = None
   \<and> reserved_of (outcome_state (process_events 9 [WorkOrderComplete ''WO1''] ex_engine)) ''MAT1''
       = Some (- 50)
   \<and> \<not> reservation_invariant (outcome_state (process_events 9 [WorkOrderComplete ''WO1''] ex_engine))
   \<and> reservation_invariant ex_double
   \<and> fst (allocate_resources 7 ex_double ''WO1'')
   \<and> reserved_of (snd (allocate_resources 7 ex_double ''WO1'')) ''MAT1'' = Some 1200
   \<and> available_of (snd (allocate_resources 7 ex_double ''WO1'')) ''MAT1'' = Some 1000
   \<and> \<not> reservation_invariant (snd (allocate_resources 7 ex_double ''WO1''))"
proof -
  have h: "process_events 9 [WorkOrderComplete ''WO1''] ex_engine
     = Inr (ex_engine\<lparr>materials := [(''MAT1'', ex_material\<lparr>quantity_reserved := - 50,
                                                          quantity_available := 950\<rparr>)],
                     work_orders := [(''WO1'', ex_work_order\<lparr>status := COMPLETED,
                                        completion_time := Some 9, progress := 100\<rparr>)]\<rparr>)"
    by (simp add: eval_defs ex_defs)
  have a: "snd (allocate_resources 7 ex_double ''WO1'')
     = ex_running\<lparr>materials := [(''MAT1'', ex_material\<lparr>quantity_reserved := 1200\<rparr>)],
                  work_orders := [(''WO1'', ex_work_order\<lparr>required_materials :=
           [\<lparr>req_material_id = ''MAT1'', req_quantity = 600\<rparr>,
            \<lparr>req_material_id = ''MAT1'', req_quantity = 600\<rparr>],
                       assigned_operator := Some ''OP1'',
                                             assigned_machine := Some ''M1'',
                                             status := IN_PROGRESS, start_time := Some 7\<rparr>)]\<rparr>"
    by (simp add: ex_double_def ex_running_def eval_defs ex_defs)
  have f: "fst (allocate_resources 7 ex_double ''WO1'')"
    by (simp add: ex_double_def eval_defs ex_defs)
  show ?thesis
    unfolding h a using f
    by (simp add: raised_def outcome_state_def reserved_of_def available_of_def
        reservation_invariant_def ex_double_def ex_running_def ex_defs)
qed

subsection \<open>Identifiers absent from the catalog\<close>

text \<open>
  Claim C6 at three inputs. Completing a work order whose required material is not
  in the catalog raises \<open>KeyError\<close> after the order has been marked completed, and
  the event loop ends with that exception. A breakdown of a machine that holds the id
  of an absent work order raises after the machine has been marked broken down, and a
  breakdown of a machine whose work order holds the id of an absent operator raises as
  well.
\<close>

theorem missing_reference_raises:
  "raised (handle_work_order_completion 9 (ex_engine\<lparr>materials := []\<rparr>) ''WO1'')
     = Some (KeyError ''MAT1'')
   \<and> outcome_state (handle_work_order_completion 9 (ex_engine\<lparr>materials := []\<rparr>) ''WO1'')
       = ex_engine\<lparr>materials := [],
                    work_orders := [(''WO1'', ex_work_order\<lparr>status := COMPLETED,
                                       completion_time := Some 9, progress := 100\<rparr>)]\<rparr>
   \<and> raised (process_events 9 [WorkOrderComplete ''WO1'', MachineMaintenance ''M1'']
               (ex_engine\<lparr>materials := []\<rparr>)) = Some (KeyError ''MAT1'')
   \<and> raised (handle_machine_breakdown 9
               (ex_engine\<lparr>machines := [(''M1'', ex_machine\<lparr>m_current_work_order := Some ''WO9''\<rparr>)]\<rparr>)
               ''M1'') = Some (KeyError ''WO9'')
   \<and> outcome_state (handle_machine_breakdown 9
               (ex_engine\<lparr>machines := [(''M1'', ex_machine\<lparr>m_current_work_order := Some ''WO9''\<rparr>)]\<rparr>)
               ''M1'')
       = ex_engine\<lparr>machines := [(''M1'', ex_machine\<lparr>m_current_status := BREAKDOWN,
                                                     m_current_work_order := Some ''WO9''\<rparr>)]\<rparr>
   \<and> raised (handle_machine_breakdown 9 (ex_running\<lparr>operators := []\<rparr>) ''M1'')
       = Some (KeyError ''OP1'')"
  by (simp add: raised_def outcome_state_def ex_running_def eval_defs ex_defs)

subsection \<open>Consistency of work orders in progress\<close>





















lemma catalog_ok_materials_update [simp]:
  "catalog_ok (e\<lparr>materials := mats\<rparr>) = catalog_ok e"
  by (simp add: catalog_ok_def)

lemma order_consistent_materials_update [simp]:
  "order_consistent (e\<lparr>materials := mats\<rparr>) k wo = order_consistent e k wo"
  by (simp add: order_consistent_def split: option.splits)

lemma in_progress_consistent_materials_update [simp]:
  "in_progress_consistent (e\<lparr>materials := mats\<rparr>) = in_progress_consistent e"
  by (simp add: in_progress_consistent_def)

lemma operator_unreferenced_update [simp]:
  "operator_unreferenced (e\<lparr>operators := ops\<rparr>) oid = operator_unreferenced e oid"
  "operator_unreferenced (e\<lparr>machines := ms\<rparr>) oid = operator_unreferenced e oid"
  "operator_unreferenced (e\<lparr>materials := mats\<rparr>) oid = operator_unreferenced e oid"
  by (simp_all add: operator_unreferenced_def)

lemma machine_unreferenced_update [simp]:
  "machine_unreferenced (e\<lparr>operators := ops\<rparr>) mid = machine_unreferenced e mid"
  "machine_unreferenced (e\<lparr>machines := ms\<rparr>) mid = machine_unreferenced e mid"
  "machine_unreferenced (e\<lparr>materials := mats\<rparr>) mid = machine_unreferenced e mid"
  by (simp_all add: machine_unreferenced_def)






















end
